theory Spec2Isabelle
  imports Main "HOL-Library.Word" "HOL-Library.Multiset"
begin

section \<open>JavaScript strings\<close>

text \<open>
  A JavaScript string is a sequence of UTF-16 code units.  The functions below are the
  string methods the import handler calls: \<^verbatim>\<open>String.prototype.trim\<close>,
  \<^verbatim>\<open>String.prototype.split\<close> with a one-unit separator, and
  \<^verbatim>\<open>Array.prototype.slice(1)\<close>.
\<close>

type_synonym jschar = "16 word"
type_synonym jsstring = "jschar list"

definition ascii :: "string \<Rightarrow> jsstring" where
  "ascii s = map (\<lambda>c. of_nat (of_char c)) s"

definition newline :: jschar where
  "newline = 0x0A"

definition comma :: jschar where
  "comma = 0x2C"

text \<open>
  \<^verbatim>\<open>trim\<close> removes WhiteSpace and LineTerminator code points from both ends: TAB, LF, VT,
  FF, CR, SPACE, NBSP, the space separators U+1680, U+2000 to U+200A, U+202F, U+205F,
  U+3000, the line and paragraph separators U+2028 and U+2029, and the byte order mark.
\<close>

definition is_white_space :: "jschar \<Rightarrow> bool" where
  "is_white_space c \<longleftrightarrow>
     c = 0x09 \<or> c = 0x0A \<or> c = 0x0B \<or> c = 0x0C \<or> c = 0x0D \<or> c = 0x20 \<or> c = 0xA0 \<or>
     c = 0x1680 \<or> (0x2000 \<le> c \<and> c \<le> 0x200A) \<or> c = 0x2028 \<or> c = 0x2029 \<or>
     c = 0x202F \<or> c = 0x205F \<or> c = 0x3000 \<or> c = 0xFEFF"

definition trim :: "jsstring \<Rightarrow> jsstring" where
  "trim s = rev (dropWhile is_white_space (rev (dropWhile is_white_space s)))"

text \<open>
  \<^verbatim>\<open>s.split(sep)\<close> for a separator of one code unit.  The result is never empty:
  the empty string splits into one empty piece.
\<close>

fun split :: "jschar \<Rightarrow> jsstring \<Rightarrow> jsstring list" where
  "split sep [] = [[]]"
| "split sep (c # cs) =
     (if c = sep then [] # split sep cs
      else (case split sep cs of
              [] \<Rightarrow> [[c]]
            | piece # pieces \<Rightarrow> (c # piece) # pieces))"

definition slice1 :: "'a list \<Rightarrow> 'a list" where
  "slice1 xs = drop 1 xs"

text \<open>
  A string is well formed when every surrogate code unit is part of a pair: a high
  surrogate (D800 to DBFF) directly followed by a low surrogate (DC00 to DFFF).
  \<^verbatim>\<open>encodeURIComponent\<close> throws a URIError on a string that is not well formed.
\<close>

definition high_surrogate :: "jschar \<Rightarrow> bool" where
  "high_surrogate c \<longleftrightarrow> 0xD800 \<le> c \<and> c \<le> 0xDBFF"

definition low_surrogate :: "jschar \<Rightarrow> bool" where
  "low_surrogate c \<longleftrightarrow> 0xDC00 \<le> c \<and> c \<le> 0xDFFF"

fun well_formed :: "jsstring \<Rightarrow> bool" where
  "well_formed [] = True"
| "well_formed [c] = (\<not> high_surrogate c \<and> \<not> low_surrogate c)"
| "well_formed (c # d # cs) =
     (if high_surrogate c then low_surrogate d \<and> well_formed cs
      else \<not> low_surrogate c \<and> well_formed (d # cs))"

section \<open>LeadsPage.handleImport: the rows parsed from the import text\<close>

text \<open>
  Source: src/unnamed/part_002, lines 571 to 588; the earlier copy of App, stored in
  src/frontend/src/LeadPersonaPanel.js at lines 1272 to 1289, has the same code.
\<close>

text \<open>
  \<^verbatim>\<open>
  const lines = importText.trim().split('\n');
  const leads = lines.slice(1).map(line => {
    const [name, email, linkedin_url, company, title] = line.split(',').map(s => s.trim());
    return { name, email, linkedin_url, company, title };
  }).filter(lead => lead.name);
  \<close>
  A field that the destructuring pattern finds no element for is \<^verbatim>\<open>undefined\<close>,
  modelled as \<open>None\<close>.
\<close>

record lead_row =
  name :: "jsstring option"
  email :: "jsstring option"
  linkedin_url :: "jsstring option"
  company :: "jsstring option"
  title :: "jsstring option"

fun destructure5 :: "'a list \<Rightarrow> 'a option \<times> 'a option \<times> 'a option \<times> 'a option \<times> 'a option" where
  "destructure5 [] = (None, None, None, None, None)"
| "destructure5 [a] = (Some a, None, None, None, None)"
| "destructure5 [a, b] = (Some a, Some b, None, None, None)"
| "destructure5 [a, b, c] = (Some a, Some b, Some c, None, None)"
| "destructure5 [a, b, c, d] = (Some a, Some b, Some c, Some d, None)"
| "destructure5 (a # b # c # d # e # rest) = (Some a, Some b, Some c, Some d, Some e)"

definition parse_line :: "jsstring \<Rightarrow> lead_row" where
  "parse_line line =
     (case destructure5 (map trim (split comma line)) of
        (n, e, l, c, t) \<Rightarrow>
          \<lparr>name = n, email = e, linkedin_url = l, company = c, title = t\<rparr>)"

text \<open>Truthiness of a value that is a string or \<^verbatim>\<open>undefined\<close>.\<close>

fun truthy :: "jsstring option \<Rightarrow> bool" where
  "truthy None = False"
| "truthy (Some s) = (s \<noteq> [])"

definition import_leads :: "jsstring \<Rightarrow> lead_row list" where
  "import_leads importText =
     (let lines = split newline (trim importText)
      in filter (\<lambda>lead. truthy (name lead)) (map parse_line (slice1 lines)))"

subsection \<open>The rows as the specification words them\<close>

text \<open>
  Drop the first (header) line; split each remaining line on commas, trim the fields and
  map them positionally to name, email, linkedin_url, company, title; keep the rows
  whose name field is non-empty, in input order.
\<close>

definition field_at :: "jsstring list \<Rightarrow> nat \<Rightarrow> jsstring option" where
  "field_at pieces k = (if k < length pieces then Some (pieces ! k) else None)"

definition row_of_line :: "jsstring \<Rightarrow> lead_row" where
  "row_of_line line =
     (let pieces = map trim (split comma line)
      in \<lparr>name = field_at pieces 0, email = field_at pieces 1,
          linkedin_url = field_at pieces 2, company = field_at pieces 3,
          title = field_at pieces 4\<rparr>)"

fun kept_rows :: "jsstring list \<Rightarrow> lead_row list" where
  "kept_rows [] = []"
| "kept_rows (line # rest) =
     (if trim (hd (split comma line)) \<noteq> [] then row_of_line line # kept_rows rest
      else kept_rows rest)"

definition spec_rows :: "jsstring \<Rightarrow> lead_row list" where
  "spec_rows text = kept_rows (tl (split newline text))"

section \<open>toggleLead\<close>

text \<open>
  Source: src/unnamed/part_000, lines 496 to 502; src/unnamed/part_001, lines 1003 to 1009;
  src/frontend/src/CampaignBuilderV2.js, lines 208 to 214.
\<close>

text \<open>
  \<^verbatim>\<open>
  setSelectedLeads(prev =>
    prev.includes(leadId) ? prev.filter(id => id !== leadId) : [...prev, leadId]);
  \<close>
  The same updater appears in LeadsAssigner (both CampaignBuilder versions) and in
  OverviewTab.  Lead ids come from JSON, so \<^verbatim>\<open>includes\<close> (SameValueZero) and
  \<^verbatim>\<open>!==\<close> agree on them: they differ on NaN only, which JSON cannot carry.
\<close>

definition toggleLead :: "'a \<Rightarrow> 'a list \<Rightarrow> 'a list" where
  "toggleLead leadId prev =
     (if leadId \<in> set prev then filter (\<lambda>i. i \<noteq> leadId) prev else prev @ [leadId])"

section \<open>ReviewMessagesTab.messagesByLead\<close>

text \<open>
  Source: src/frontend/src/LeadPersonaPanel.js, lines 523 to 529.
\<close>

text \<open>
  \<^verbatim>\<open>
  const messagesByLead = messages.reduce((acc, msg) => {
    if (!acc[msg.lead_id]) { acc[msg.lead_id] = []; }
    acc[msg.lead_id].push(msg);
    return acc;
  }, {});
  \<close>
  The accumulator is a plain object.  Its own properties are kept as an association list
  in creation order (the order in which \<^verbatim>\<open>Object.keys\<close> lists them is \<open>object_keys\<close>
  below); \<open>lead_id\<close> is the property key the message's lead id converts to.
  A plain object inherits the properties of \<^verbatim>\<open>Object.prototype\<close>: reading one of
  those keys gives a function (or, for \<^verbatim>\<open>__proto__\<close>, the prototype object), which is
  truthy and has no \<^verbatim>\<open>push\<close>, so the call of \<^verbatim>\<open>push\<close> throws a TypeError.
\<close>

record message =
  msg_id :: string
  lead_id :: string
  step_number :: nat
  subject :: string
  content :: string

datatype js_error = TypeError

type_synonym groups = "(string \<times> message list) list"

definition object_prototype_keys :: "string list" where
  "object_prototype_keys =
     [''constructor'', ''__defineGetter__'', ''__defineSetter__'', ''hasOwnProperty'',
      ''__lookupGetter__'', ''__lookupSetter__'', ''isPrototypeOf'',
      ''propertyIsEnumerable'', ''toString'', ''valueOf'', ''__proto__'',
      ''toLocaleString'']"

datatype property = Undefined | Inherited | Array "message list"

definition get_property :: "groups \<Rightarrow> string \<Rightarrow> property" where
  "get_property acc k =
     (case map_of acc k of
        Some ms \<Rightarrow> Array ms
      | None \<Rightarrow> if k \<in> set object_prototype_keys then Inherited else Undefined)"

fun set_property :: "groups \<Rightarrow> string \<Rightarrow> message list \<Rightarrow> groups" where
  "set_property [] k v = [(k, v)]"
| "set_property ((k', v') # acc) k v =
     (if k' = k then (k, v) # acc else (k', v') # set_property acc k v)"

definition group_step :: "groups \<Rightarrow> message \<Rightarrow> js_error + groups" where
  "group_step acc msg =
     (let k = lead_id msg;
          acc1 = (if get_property acc k = Undefined then set_property acc k [] else acc)
      in case get_property acc1 k of
           Array ms \<Rightarrow> Inr (set_property acc1 k (ms @ [msg]))
         | Inherited \<Rightarrow> Inl TypeError
         | Undefined \<Rightarrow> Inl TypeError)"

fun reduce_groups :: "groups \<Rightarrow> message list \<Rightarrow> js_error + groups" where
  "reduce_groups acc [] = Inr acc"
| "reduce_groups acc (msg # msgs) =
     (case group_step acc msg of
        Inl e \<Rightarrow> Inl e
      | Inr acc' \<Rightarrow> reduce_groups acc' msgs)"

definition messagesByLead :: "message list \<Rightarrow> js_error + groups" where
  "messagesByLead messages = reduce_groups [] messages"

definition group_of :: "groups \<Rightarrow> string \<Rightarrow> message list" where
  "group_of g k = (case map_of g k of Some ms \<Rightarrow> ms | None \<Rightarrow> [])"

text \<open>
  The table renders one row for each key of \<^verbatim>\<open>Object.keys(messagesByLead)\<close> (line 573).
  \<^verbatim>\<open>Object.keys\<close> lists the keys that are array indices first, in ascending numeric
  order, and then the other keys in creation order.  An array index is the decimal
  numeral, without sign or leading zero, of a number below 4294967295.
\<close>

definition digit :: "char \<Rightarrow> bool" where
  "digit c \<longleftrightarrow> (48::nat) \<le> of_char c \<and> of_char c \<le> (57::nat)"

definition decimal :: "string \<Rightarrow> nat" where
  "decimal k = foldl (\<lambda>n c. 10 * n + (of_char c - 48)) 0 k"

definition array_index :: "string \<Rightarrow> nat option" where
  "array_index k =
     (if k \<noteq> [] \<and> list_all digit k \<and> (k = ''0'' \<or> hd k \<noteq> CHR ''0'') \<and> decimal k < 4294967295
      then Some (decimal k) else None)"

definition object_keys :: "groups \<Rightarrow> string list" where
  "object_keys g =
     sort_key (\<lambda>k. case array_index k of Some n \<Rightarrow> n | None \<Rightarrow> 0)
       (filter (\<lambda>k. array_index k \<noteq> None) (map fst g))
     @ filter (\<lambda>k. array_index k = None) (map fst g)"

section \<open>Handlers as effect traces\<close>

text \<open>
  A handler run is the sequence of its observable effects, in program order: requests
  sent through the HTTP client, the settling of an awaited request, toasts, calls of React
  state setters, writes to \<^verbatim>\<open>localStorage\<close>, router navigation, console logging
  and calls of other functions that are not awaited.  A request path is the list of
  its segments below \<^verbatim>\<open>BACKEND_URL\<close>, so \<^verbatim>\<open>api.get('/leads')\<close> on a client whose
  base URL is \<^verbatim>\<open>${BACKEND_URL}/api\<close> has the path \<open>[''api'', ''leads'']\<close>; a query
  string is not part of the path.  A call of another async function that is not awaited
  is recorded as a \<open>Call\<close>; the run it starts is a run of its own.  A request that
  resolves does so with data of the shape the handler reads, and the props and state a
  handler reads have the shape its component gives them.  An exception that the handler's
  own code raises on a string the user typed is a branch of the model: the URL encoding in
  \<open>ResearchPage.handleResearch\<close>.
\<close>

datatype http_method = GET | POST | PATCH | DELETE

text \<open>
  Request bodies are kept where a claim depends on them: \<open>Named n\<close> is a form object
  whose \<^verbatim>\<open>name\<close> property is \<open>n\<close>, \<open>Leads rows\<close> is \<^verbatim>\<open>{ leads: rows }\<close>, and
  \<open>Step k d\<close> is a default step with \<^verbatim>\<open>step_number\<close> \<open>k\<close> and \<^verbatim>\<open>delay_days\<close> \<open>d\<close>.
  \<open>Body\<close> stands for any other body.
\<close>

datatype payload = NoBody | Body | Named jsstring | Leads "lead_row list" | Step nat nat

datatype effect =
    Request http_method "string list" payload
  | Resolved
  | Rejected
  | ToastSuccess
  | ToastError
  | ToastInfo
  | SetState string
  | StorageSet string
  | StorageRemove string
  | Navigate "string list"
  | ReplaceState
  | ConsoleError
  | Call string
  | CallLater string

text \<open>What the backend does with an awaited request: the promise rejects, or resolves with data.\<close>

datatype 'a outcome = Fails | Returns 'a

text \<open>
  \<^verbatim>\<open>try { const response = await api.m(path, body); on_ok } catch (error) { on_catch }\<close>
\<close>

definition try_await ::
  "http_method \<Rightarrow> string list \<Rightarrow> payload \<Rightarrow> 'a outcome \<Rightarrow> ('a \<Rightarrow> effect list) \<Rightarrow> effect list
     \<Rightarrow> effect list" where
  "try_await m p b r on_ok on_catch =
     Request m p b # (case r of Returns d \<Rightarrow> Resolved # on_ok d | Fails \<Rightarrow> Rejected # on_catch)"

text \<open>
  \<^verbatim>\<open>try { for (const x of xs) { await api.m(path x, body x); } on_done } catch (error) { on_catch }\<close>:
  the loop stops at the first request that fails.  \<open>rs i\<close> is the outcome of request
  number \<open>i\<close> of the loop.
\<close>

fun try_await_each ::
  "http_method \<Rightarrow> (string list \<times> payload) list \<Rightarrow> (nat \<Rightarrow> unit outcome) \<Rightarrow> nat \<Rightarrow> effect list
     \<Rightarrow> effect list \<Rightarrow> effect list" where
  "try_await_each m [] rs i on_done on_catch = on_done"
| "try_await_each m ((p, b) # reqs) rs i on_done on_catch =
     Request m p b #
       (case rs i of
          Fails \<Rightarrow> Rejected # on_catch
        | Returns u \<Rightarrow> Resolved # try_await_each m reqs rs (Suc i) on_done on_catch)"

text \<open>Truthiness of a string that may be \<^verbatim>\<open>null\<close> or \<^verbatim>\<open>undefined\<close>.\<close>

fun present :: "string option \<Rightarrow> bool" where
  "present None = False"
| "present (Some s) = (s \<noteq> [])"

subsection \<open>App: AuthHandler, ProtectedRoute, DashboardLayout, Dashboard\<close>

text \<open>
  Source: src/unnamed/part_002 (the current App), lines 111 to 158, 181 to 196, 229 to 238
  and 300 to 308.  An earlier copy of App is stored in
  src/frontend/src/LeadPersonaPanel.js from line 802; where a handler of the copy differs,
  it is modelled as well and called earlier.
\<close>

text \<open>
  \<open>AuthHandler.handleAuth\<close>: \<open>sessionId\<close> is the match of \<^verbatim>\<open>/session_id=([^&]+)/\<close> in the URL
  fragment, \<open>sessionToken\<close> is \<^verbatim>\<open>localStorage.getItem('session_token')\<close>.
\<close>

definition AuthHandler_handleAuth ::
  "string option \<Rightarrow> string option \<Rightarrow> unit outcome \<Rightarrow> effect list" where
  "AuthHandler_handleAuth sessionId sessionToken r =
     (case sessionId of
        Some sid \<Rightarrow>
          try_await POST [''api'', ''auth'', ''session-data''] Body r
            (\<lambda>d. [StorageSet ''session_token'', StorageSet ''user'', ReplaceState, ToastSuccess,
                  Navigate [''dashboard'']])
            [ConsoleError, ToastError, Navigate []]
      | None \<Rightarrow>
          if present sessionToken then
            try_await GET [''api'', ''auth'', ''me''] NoBody r
              (\<lambda>d. [Navigate [''dashboard'']])
              [StorageRemove ''session_token'', StorageRemove ''user'', Navigate []]
          else [Navigate []])
     @ [SetState ''loading'']"

definition ProtectedRoute_checkAuth :: "string option \<Rightarrow> unit outcome \<Rightarrow> effect list" where
  "ProtectedRoute_checkAuth sessionToken r =
     (if \<not> present sessionToken then [SetState ''isAuthenticated'']
      else try_await GET [''api'', ''auth'', ''me''] NoBody r
             (\<lambda>d. [SetState ''isAuthenticated''])
             [StorageRemove ''session_token'', StorageRemove ''user'',
              SetState ''isAuthenticated''])"

definition DashboardLayout_handleLogout :: "unit outcome \<Rightarrow> effect list" where
  "DashboardLayout_handleLogout r =
     try_await POST [''api'', ''auth'', ''logout''] NoBody r (\<lambda>d. []) [ConsoleError]
     @ [StorageRemove ''session_token'', StorageRemove ''user'', Navigate []]"

definition Dashboard_fetchOverview :: "unit outcome \<Rightarrow> effect list" where
  "Dashboard_fetchOverview r =
     try_await GET [''api'', ''analytics'', ''overview''] NoBody r
       (\<lambda>d. [SetState ''overview'']) [ToastError]
     @ [SetState ''loading'']"

subsection \<open>App: CampaignsPage\<close>

text \<open>
  Source: src/unnamed/part_002, lines 369 to 395; the earlier \<open>handleCreate\<close> is at
  src/frontend/src/LeadPersonaPanel.js, lines 1169 to 1179.
\<close>

definition CampaignsPage_fetchCampaigns :: "unit outcome \<Rightarrow> effect list" where
  "CampaignsPage_fetchCampaigns r =
     try_await GET [''api'', ''campaigns''] NoBody r (\<lambda>d. [SetState ''campaigns'']) [ToastError]"

text \<open>
  \<open>CampaignsPage.handleCreate\<close> of the current App: \<open>newName\<close> is \<^verbatim>\<open>newCampaign.name\<close>, the
  response data is the id of the created campaign.
\<close>

definition CampaignsPage_handleCreate :: "jsstring \<Rightarrow> string outcome \<Rightarrow> effect list" where
  "CampaignsPage_handleCreate newName r =
     (if newName = [] then [ToastError]
      else try_await POST [''api'', ''campaigns''] (Named newName) r
             (\<lambda>cid. [ToastSuccess, SetState ''showCreate'', SetState ''newCampaign'',
                      Navigate [''campaigns'', cid, ''edit'']])
             [ToastError])"

text \<open>The earlier \<open>CampaignsPage.handleCreate\<close> (the App copy stored after LeadPersonaPanel).\<close>

definition CampaignsPage_handleCreate_earlier :: "jsstring \<Rightarrow> string outcome \<Rightarrow> effect list" where
  "CampaignsPage_handleCreate_earlier newName r =
     try_await POST [''api'', ''campaigns''] (Named newName) r
       (\<lambda>cid. [ToastSuccess, SetState ''showCreate'', SetState ''newCampaign'',
                Call ''fetchCampaigns''])
       [ToastError]"

subsection \<open>App: LeadsPage\<close>

text \<open>
  Source: src/unnamed/part_002, lines 526 to 588.
\<close>

definition LeadsPage_fetchLeads :: "unit outcome \<Rightarrow> effect list" where
  "LeadsPage_fetchLeads r =
     try_await GET [''api'', ''leads''] NoBody r (\<lambda>d. [SetState ''leads'']) [ToastError]"

definition LeadsPage_handleCreate :: "jsstring \<Rightarrow> unit outcome \<Rightarrow> effect list" where
  "LeadsPage_handleCreate leadName r =
     try_await POST [''api'', ''leads''] (Named leadName) r
       (\<lambda>d. [ToastSuccess, SetState ''showCreate'', SetState ''newLead'', Call ''fetchLeads''])
       [ToastError]"

definition LeadsPage_handleUpdate :: "string \<Rightarrow> jsstring \<Rightarrow> unit outcome \<Rightarrow> effect list" where
  "LeadsPage_handleUpdate leadId leadName r =
     try_await PATCH [''api'', ''leads'', leadId] (Named leadName) r
       (\<lambda>d. [ToastSuccess, SetState ''editingLead'', Call ''fetchLeads''])
       [ToastError]"

text \<open>\<open>confirmed\<close> is the answer to \<^verbatim>\<open>window.confirm('Delete this lead?')\<close>.\<close>

definition LeadsPage_handleDelete :: "bool \<Rightarrow> string \<Rightarrow> unit outcome \<Rightarrow> effect list" where
  "LeadsPage_handleDelete confirmed leadId r =
     (if \<not> confirmed then []
      else try_await DELETE [''api'', ''leads'', leadId] NoBody r
             (\<lambda>d. [ToastSuccess, SetState ''editingLead'', Call ''fetchLeads''])
             [ToastError])"

definition LeadsPage_handleImport :: "jsstring \<Rightarrow> unit outcome \<Rightarrow> effect list" where
  "LeadsPage_handleImport importText r =
     try_await POST [''api'', ''leads'', ''import''] (Leads (import_leads importText)) r
       (\<lambda>d. [ToastSuccess, SetState ''showImport'', SetState ''importText'', Call ''fetchLeads''])
       [ToastError]"

subsection \<open>App: AnalyticsPage, ResearchPage\<close>

text \<open>
  Source: src/unnamed/part_002, lines 801 to 820 and 867 to 901; the earlier
  \<open>handleResearch\<close> is at src/frontend/src/LeadPersonaPanel.js, lines 1495 to 1513.
\<close>

definition AnalyticsPage_fetchInsights :: "unit outcome \<Rightarrow> effect list" where
  "AnalyticsPage_fetchInsights r =
     try_await GET [''api'', ''analytics'', ''insights''] NoBody r
       (\<lambda>d. [SetState ''insights'']) [ConsoleError]"

definition AnalyticsPage_generateInsights :: "unit outcome \<Rightarrow> effect list" where
  "AnalyticsPage_generateInsights r =
     SetState ''generating'' #
     try_await POST [''api'', ''analytics'', ''insights''] Body r
       (\<lambda>d. [SetState ''insights'', ToastSuccess]) [ToastError]
     @ [SetState ''generating'']"

definition ResearchPage_fetchLeads :: "unit outcome \<Rightarrow> effect list" where
  "ResearchPage_fetchLeads r =
     try_await GET [''api'', ''leads''] NoBody r (\<lambda>d. [SetState ''leads'']) [ToastError]"

text \<open>
  \<open>ResearchPage.handleResearch\<close> of the current App: \<open>leadUrl\<close>, \<open>leadName\<close> and
  \<open>leadCompany\<close> are \<^verbatim>\<open>lead.linkedin_url\<close>, \<^verbatim>\<open>lead.name\<close> and \<^verbatim>\<open>lead.company\<close>
  (\<open>None\<close> when absent); the response data says whether \<^verbatim>\<open>response.data.persona\<close> is
  truthy.  The body of the request is built inside the \<^verbatim>\<open>try\<close> block:
  \<^verbatim>\<open>
  linkedin_url: lead.linkedin_url ||
    `https://linkedin.com/search?q=${encodeURIComponent(lead.name + ' ' + lead.company)}`
  \<close>
  so for a lead without a LinkedIn URL the name and the company are concatenated and
  encoded, which throws when the result is not well formed; the \<^verbatim>\<open>catch\<close> block then
  shows its toast and no request is sent.  \<open>to_string\<close> is the conversion that \<^verbatim>\<open>+\<close>
  applies to an operand: an absent property reads \<^verbatim>\<open>undefined\<close> (a property that is
  \<^verbatim>\<open>null\<close> would read \<^verbatim>\<open>null\<close>, as well formed as \<^verbatim>\<open>undefined\<close>).
\<close>

fun to_string :: "jsstring option \<Rightarrow> jsstring" where
  "to_string None = ascii ''undefined''"
| "to_string (Some s) = s"

definition search_terms :: "jsstring option \<Rightarrow> jsstring option \<Rightarrow> jsstring" where
  "search_terms leadName leadCompany = to_string leadName @ ascii '' '' @ to_string leadCompany"

definition ResearchPage_handleResearch ::
  "jsstring option \<Rightarrow> jsstring option \<Rightarrow> jsstring option \<Rightarrow> bool outcome \<Rightarrow> effect list"
  where
  "ResearchPage_handleResearch leadUrl leadName leadCompany r =
     (if \<not> truthy leadUrl \<and> \<not> truthy leadName then [ToastError]
      else SetState ''researching'' #
           (if \<not> truthy leadUrl \<and> \<not> well_formed (search_terms leadName leadCompany)
            then [ToastError]
            else try_await POST [''api'', ''research'', ''persona''] Body r
                   (\<lambda>persona. if persona then [ToastSuccess, Call ''fetchLeads'']
                              else [ToastError])
                   [ToastError])
           @ [SetState ''researching''])"

definition ResearchPage_handleResearch_earlier ::
  "jsstring option \<Rightarrow> unit outcome \<Rightarrow> effect list" where
  "ResearchPage_handleResearch_earlier leadUrl r =
     (if \<not> truthy leadUrl then [ToastError]
      else SetState ''researching'' #
           try_await POST [''api'', ''research'', ''persona''] Body r
             (\<lambda>d. [ToastSuccess, Call ''fetchLeads''])
             [ToastError]
           @ [SetState ''researching''])"

subsection \<open>App: SettingsPage, MessagesPage\<close>

text \<open>
  Source: src/unnamed/part_002, lines 988 to 1060 and 1300 to 1330.
\<close>

definition SettingsPage_fetchIntegrations :: "unit outcome \<Rightarrow> effect list" where
  "SettingsPage_fetchIntegrations r =
     try_await GET [''api'', ''settings'', ''integrations''] NoBody r
       (\<lambda>d. [SetState ''integrations'']) [ToastError]
     @ [SetState ''loading'']"

definition SettingsPage_fetchApiKeys :: "unit outcome \<Rightarrow> effect list" where
  "SettingsPage_fetchApiKeys r =
     try_await GET [''api'', ''settings'', ''api-keys''] NoBody r
       (\<lambda>d. [SetState ''showApiKeys'']) [ConsoleError]"

definition SettingsPage_saveApiKeys :: "unit outcome \<Rightarrow> effect list" where
  "SettingsPage_saveApiKeys r =
     try_await POST [''api'', ''settings'', ''api-keys''] Body r
       (\<lambda>d. [ToastSuccess, SetState ''apiKeys'', Call ''fetchIntegrations'', Call ''fetchApiKeys''])
       [ToastError]"

definition SettingsPage_handleConnectSheets :: "jsstring \<Rightarrow> unit outcome \<Rightarrow> effect list" where
  "SettingsPage_handleConnectSheets sheetsUrl r =
     (if sheetsUrl = [] then [ToastError]
      else try_await POST [''api'', ''integrations'', ''google-sheets'', ''connect''] Body r
             (\<lambda>d. [ToastSuccess, SetState ''sheetsUrl'', Call ''fetchIntegrations''])
             [ToastError])"

definition SettingsPage_handleSyncSheets :: "unit outcome \<Rightarrow> effect list" where
  "SettingsPage_handleSyncSheets r =
     SetState ''syncing'' #
     try_await POST [''api'', ''integrations'', ''google-sheets'', ''sync''] NoBody r
       (\<lambda>d. [ToastSuccess]) [ToastError]
     @ [SetState ''syncing'']"

definition MessagesPage_fetchMessages :: "unit outcome \<Rightarrow> effect list" where
  "MessagesPage_fetchMessages r =
     try_await GET [''api'', ''messages''] NoBody r (\<lambda>d. [SetState ''messages'']) [ToastError]"

definition MessagesPage_handleSendReply :: "jsstring \<Rightarrow> unit outcome \<Rightarrow> effect list" where
  "MessagesPage_handleSendReply replyText r =
     (if trim replyText = [] then [ToastError]
      else SetState ''sending'' #
           try_await POST [''api'', ''messages'', ''reply''] Body r
             (\<lambda>d. [ToastSuccess, SetState ''replyText'', SetState ''selectedMessage'',
                   Call ''fetchMessages''])
             [ToastError]
           @ [SetState ''sending''])"

subsection \<open>CampaignBuilder\<close>

text \<open>
  Source: src/unnamed/part_000, lines 38 to 225 and 256 (the first version);
  src/unnamed/part_001, lines 45 to 238 and 312 (the later version).  A third copy, in
  src/test_result.md from line 241, has the handlers of the later version.
\<close>

text \<open>
  Two versions of CampaignBuilder are in the repository.  They differ in
  \<open>fetchCampaign\<close> and \<open>initializeDefaultSteps\<close>; the later version adds handlers.
  \<open>campaign_data\<close> is what the handlers read of the fetched campaign: \<open>message_steps\<close> is
  the length of the array of that name, \<open>None\<close> when the property is absent or null;
  \<open>email_channel\<close> says whether \<^verbatim>\<open>goal_type\<close> is email, which decides the subjects of the
  default variants (the payload \<open>Step\<close> does not keep them).
\<close>

record campaign_data =
  message_steps :: "nat option"
  email_channel :: bool

definition no_message_steps :: "campaign_data \<Rightarrow> bool" where
  "no_message_steps d = (case message_steps d of None \<Rightarrow> True | Some n \<Rightarrow> n = 0)"

definition steps_path :: "string \<Rightarrow> string list" where
  "steps_path campaignId = [''api'', ''campaigns'', campaignId, ''steps'']"

definition defaultSteps :: "string \<Rightarrow> (string list \<times> payload) list" where
  "defaultSteps campaignId =
     [(steps_path campaignId, Step 1 0), (steps_path campaignId, Step 2 3),
      (steps_path campaignId, Step 3 5)]"

text \<open>
  \<open>initializingSteps\<close> is the value of the state variable in the render whose closure runs.
\<close>

definition initializeDefaultSteps ::
  "string \<Rightarrow> bool \<Rightarrow> (nat \<Rightarrow> unit outcome) \<Rightarrow> effect list" where
  "initializeDefaultSteps campaignId initializingSteps rs =
     (if initializingSteps then []
      else SetState ''initializingSteps'' #
           try_await_each POST (defaultSteps campaignId) rs 0
             [ToastSuccess, Call ''fetchCampaign'']
             [ConsoleError]
           @ [SetState ''initializingSteps''])"

definition initializeDefaultSteps_later ::
  "string \<Rightarrow> bool \<Rightarrow> (nat \<Rightarrow> unit outcome) \<Rightarrow> effect list" where
  "initializeDefaultSteps_later campaignId initializingSteps rs =
     (if initializingSteps then []
      else SetState ''initializingSteps'' #
           try_await_each POST (defaultSteps campaignId) rs 0
             [ToastSuccess, Call ''fetchCampaign'']
             [ConsoleError, ToastError]
           @ [SetState ''initializingSteps''])"

definition fetchCampaign ::
  "string \<Rightarrow> bool \<Rightarrow> campaign_data outcome \<Rightarrow> (nat \<Rightarrow> unit outcome) \<Rightarrow> effect list" where
  "fetchCampaign campaignId initializingSteps r rs =
     try_await GET [''api'', ''campaigns'', campaignId] NoBody r
       (\<lambda>d. SetState ''campaign'' #
            (if no_message_steps d then initializeDefaultSteps campaignId initializingSteps rs
             else []))
       [ToastError]
     @ [SetState ''loading'']"

definition fetchCampaign_later ::
  "string \<Rightarrow> bool \<Rightarrow> campaign_data outcome \<Rightarrow> (nat \<Rightarrow> unit outcome) \<Rightarrow> effect list" where
  "fetchCampaign_later campaignId initializingSteps r rs =
     try_await GET [''api'', ''campaigns'', campaignId] NoBody r
       (\<lambda>d. [SetState ''campaign'', SetState ''campaignEdits''] @
            (if no_message_steps d \<and> \<not> initializingSteps
             then initializeDefaultSteps_later campaignId initializingSteps rs
             else []))
       [ToastError]
     @ [SetState ''loading'']"

definition CampaignBuilder_fetchLeads :: "unit outcome \<Rightarrow> effect list" where
  "CampaignBuilder_fetchLeads r =
     try_await GET [''api'', ''leads''] NoBody r (\<lambda>d. [SetState ''leads'']) [ConsoleError]"

definition addStep :: "string \<Rightarrow> unit outcome \<Rightarrow> effect list" where
  "addStep campaignId r =
     try_await POST (steps_path campaignId) Body r
       (\<lambda>d. [ToastSuccess, Call ''fetchCampaign'']) [ToastError]"

text \<open>
  \<^verbatim>\<open>
  const saveStep = async (stepIndex) => {
    // In a full implementation, this would update the specific step
    toast.success('Step saved!');
  };
  \<close>
\<close>

definition saveStep :: "nat \<Rightarrow> effect list" where
  "saveStep stepIndex = [ToastSuccess]"

definition setSchedule :: "string \<Rightarrow> unit outcome \<Rightarrow> effect list" where
  "setSchedule campaignId r =
     try_await POST [''api'', ''campaigns'', campaignId, ''schedule''] Body r
       (\<lambda>d. [ToastSuccess, Call ''fetchCampaign'']) [ToastError]"

text \<open>The response data of the next two is \<^verbatim>\<open>response.data.valid\<close> and \<^verbatim>\<open>response.data.success\<close>.\<close>

definition validateCampaign :: "string \<Rightarrow> bool outcome \<Rightarrow> effect list" where
  "validateCampaign campaignId r =
     try_await POST [''api'', ''campaigns'', campaignId, ''validate''] NoBody r
       (\<lambda>valid. if valid then [ToastSuccess] else [ToastError]) [ToastError]"

definition activateCampaign :: "string \<Rightarrow> bool outcome \<Rightarrow> effect list" where
  "activateCampaign campaignId r =
     try_await POST [''api'', ''campaigns'', campaignId, ''activate''] NoBody r
       (\<lambda>success. if success then [ToastSuccess, Call ''fetchCampaign''] else [ToastError])
       [ToastError]"

definition assignLeads :: "string \<Rightarrow> unit outcome \<Rightarrow> effect list" where
  "assignLeads campaignId r =
     try_await PATCH [''api'', ''campaigns'', campaignId] Body r
       (\<lambda>d. [ToastSuccess, Call ''fetchCampaign'']) [ToastError]"

text \<open>
  The Pause button: \<^verbatim>\<open>api.patch(`/campaigns/${campaignId}`, { status: 'paused' }).then(fetchCampaign)\<close>,
  with no handler for a rejection.
\<close>

definition pauseCampaign :: "string \<Rightarrow> unit outcome \<Rightarrow> effect list" where
  "pauseCampaign campaignId r =
     Request PATCH [''api'', ''campaigns'', campaignId] Body #
     (case r of Returns d \<Rightarrow> [Resolved, Call ''fetchCampaign''] | Fails \<Rightarrow> [Rejected])"

subsection \<open>CampaignBuilder, later version only\<close>

text \<open>
  Source: src/unnamed/part_001, lines 240 to 281, 356 to 360, 419 to 427, 508 to 536,
  676 to 708 and 1071 to 1079 (\<open>fetchAnalytics\<close> is in the first version too).
\<close>

definition saveCampaignEdits :: "string \<Rightarrow> unit outcome \<Rightarrow> effect list" where
  "saveCampaignEdits campaignId r =
     try_await PATCH [''api'', ''campaigns'', campaignId] Body r
       (\<lambda>d. [ToastSuccess, SetState ''editingCampaign'', Call ''fetchCampaign'']) [ToastError]"

definition generateAIMessage :: "(bool \<times> bool) option outcome \<Rightarrow> effect list" where
  "generateAIMessage r =
     try_await POST [''api'', ''campaigns'', ''generate-message''] Body r
       (\<lambda>d. [ToastSuccess]) [ToastError]"

definition generateAllMessages :: "string \<Rightarrow> unit outcome \<Rightarrow> effect list" where
  "generateAllMessages campaignId r =
     SetState ''generatingAll'' #
     try_await POST [''api'', ''campaigns'', campaignId, ''generate-all-messages''] Body r
       (\<lambda>d. [ToastSuccess, Call ''fetchCampaign'']) [ToastError]
     @ [SetState ''generatingAll'']"

text \<open>
  The \<open>onSelectProfile\<close> callback given to AgentProfileTab: the request is neither awaited
  nor guarded, so it settles after the callback has finished.
  \<^verbatim>\<open>
  api.patch(`/campaigns/${campaignId}`, { agent_profile_id: profileId });
  fetchCampaign();
  toast.success('Agent profile linked!');
  \<close>
\<close>

definition onSelectProfile :: "string \<Rightarrow> unit outcome \<Rightarrow> effect list" where
  "onSelectProfile campaignId r =
     [Request PATCH [''api'', ''campaigns'', campaignId] Body, Call ''fetchCampaign'',
      ToastSuccess, (case r of Returns d \<Rightarrow> Resolved | Fails \<Rightarrow> Rejected)]"

definition AgentProfileTab_fetchProfile :: "unit outcome \<Rightarrow> effect list" where
  "AgentProfileTab_fetchProfile r =
     try_await GET [''api'', ''ai-agent-profiles''] NoBody r
       (\<lambda>d. [SetState ''currentProfile'']) [ConsoleError]"

text \<open>
  File uploads: \<open>file\<close> is the name of \<^verbatim>\<open>event.target.files[0]\<close>, \<open>None\<close> when no file was
  chosen.  The name must match \<^verbatim>\<open>/\.(pdf|docx|txt)$/i\<close>.  The three upload handlers
  (\<open>ProductInfoEditor.handleFileUpload\<close>, \<open>ProductInfoTab.handleFileUpload\<close> and
  \<open>StepTab.handleBestPracticesUpload\<close>) have the same body but for the path and what
  follows the success toast; \<open>upload\<close> is that body.
\<close>

definition to_lower :: "jschar \<Rightarrow> jschar" where
  "to_lower c = (if 0x41 \<le> c \<and> c \<le> 0x5A then c + 0x20 else c)"

definition ends_with :: "jsstring \<Rightarrow> jsstring \<Rightarrow> bool" where
  "ends_with suffix s \<longleftrightarrow>
     length suffix \<le> length s \<and> drop (length s - length suffix) s = suffix"

definition supported_document :: "jsstring \<Rightarrow> bool" where
  "supported_document fileName \<longleftrightarrow>
     ends_with (ascii ''.pdf'') (map to_lower fileName) \<or>
     ends_with (ascii ''.docx'') (map to_lower fileName) \<or>
     ends_with (ascii ''.txt'') (map to_lower fileName)"

definition upload ::
  "jsstring option \<Rightarrow> string list \<Rightarrow> unit outcome \<Rightarrow> effect list \<Rightarrow> effect list" where
  "upload file path r on_ok =
     (case file of
        None \<Rightarrow> []
      | Some fileName \<Rightarrow>
          if \<not> supported_document fileName then [ToastError]
          else SetState ''uploading'' #
               try_await POST path Body r (\<lambda>d. on_ok) [ToastError]
               @ [SetState ''uploading''])"

definition ProductInfoEditor_handleFileUpload ::
  "jsstring option \<Rightarrow> string \<Rightarrow> unit outcome \<Rightarrow> effect list" where
  "ProductInfoEditor_handleFileUpload file campaignId r =
     upload file [''api'', ''campaigns'', campaignId, ''upload-product-doc''] r
       [ToastSuccess, SetState ''campaignEdits'', SetState ''campaignEdits'']"

text \<open>
  \<open>StepsBuilder.handleAIGenerate\<close> awaits \<open>generateAIMessage\<close>, which returns the response data
  or null.  \<open>leadWithPersona\<close>: some lead has a persona; \<open>productName\<close>:
  \<^verbatim>\<open>campaign.product_info\<close> and its name are truthy.  The response data is \<open>None\<close> when it is
  falsy; otherwise it says whether a step with the step number exists and whether
  \<^verbatim>\<open>result.subject && campaign.goal_type === 'email'\<close> holds.
\<close>

definition handleAIGenerate ::
  "bool \<Rightarrow> bool \<Rightarrow> (bool \<times> bool) option outcome \<Rightarrow> effect list" where
  "handleAIGenerate leadWithPersona productName r =
     (if \<not> leadWithPersona then [ToastError]
      else if \<not> productName then [ToastError]
      else SetState ''generatingAI'' #
           generateAIMessage r @
           (case r of
              Returns (Some (stepFound, withSubject)) \<Rightarrow>
                if stepFound
                then Call ''onUpdateVariant'' # (if withSubject then [Call ''onUpdateVariant''] else [])
                else []
            | Returns None \<Rightarrow> []
            | Fails \<Rightarrow> [])
           @ [SetState ''generatingAI''])"

definition updateStepTiming :: "nat \<Rightarrow> effect list" where
  "updateStepTiming stepIndex = [ToastInfo]"

definition CampaignAnalytics_fetchAnalytics :: "string \<Rightarrow> unit outcome \<Rightarrow> effect list" where
  "CampaignAnalytics_fetchAnalytics campaignId r =
     try_await GET [''api'', ''campaigns'', campaignId, ''analytics''] NoBody r
       (\<lambda>d. [SetState ''analytics'']) [ToastError]
     @ [SetState ''loading'']"

subsection \<open>AIAgentProfileManager, CampaignsV2Page, PhantombusterImport, BulkLeadEnrichment\<close>

text \<open>
  Source: src/unnamed/part_000, lines 641 to 668; src/unnamed/part_003, lines 37 to 75 and
  324 to 355; src/unnamed/part_004, lines 25 to 77.
\<close>

definition AIAgentProfileManager_fetchProfiles :: "unit outcome \<Rightarrow> effect list" where
  "AIAgentProfileManager_fetchProfiles r =
     try_await GET [''api'', ''ai-agent-profiles''] NoBody r
       (\<lambda>d. [SetState ''profiles'']) [ConsoleError]"

text \<open>\<open>onSelect\<close>: the parent passed the optional \<^verbatim>\<open>onSelect\<close> callback.\<close>

definition AIAgentProfileManager_handleCreate ::
  "jsstring \<Rightarrow> bool \<Rightarrow> unit outcome \<Rightarrow> effect list" where
  "AIAgentProfileManager_handleCreate profileName onSelect r =
     try_await POST [''api'', ''ai-agent-profiles''] (Named profileName) r
       (\<lambda>d. [ToastSuccess, SetState ''creating'', Call ''fetchProfiles''] @
            (if onSelect then [Call ''onSelect''] else []))
       [ToastError]"

definition CampaignsV2Page_fetchCampaigns :: "unit outcome \<Rightarrow> effect list" where
  "CampaignsV2Page_fetchCampaigns r =
     try_await GET [''api'', ''v2'', ''campaigns''] NoBody r
       (\<lambda>d. [SetState ''campaigns'']) [ToastError]
     @ [SetState ''loading'']"

definition CampaignsV2Page_createCampaign :: "jsstring \<Rightarrow> string outcome \<Rightarrow> effect list" where
  "CampaignsV2Page_createCampaign newName r =
     (if newName = [] then [ToastError]
      else try_await POST [''api'', ''v2'', ''campaigns''] (Named newName) r
             (\<lambda>cid. [ToastSuccess, SetState ''showCreate'', SetState ''newCampaign'',
                      Navigate [''campaigns-v2'', cid]])
             [ToastError])"

definition CampaignsV2Page_deleteCampaign :: "bool \<Rightarrow> string \<Rightarrow> unit outcome \<Rightarrow> effect list" where
  "CampaignsV2Page_deleteCampaign confirmed campaignId r =
     (if \<not> confirmed then []
      else try_await DELETE [''api'', ''v2'', ''campaigns'', campaignId] NoBody r
             (\<lambda>d. [ToastSuccess, Call ''fetchCampaigns''])
             [ToastError])"

definition PhantombusterImport_fetchAgents :: "unit outcome \<Rightarrow> effect list" where
  "PhantombusterImport_fetchAgents r =
     try_await GET [''api'', ''phantombuster'', ''agents''] NoBody r
       (\<lambda>d. [SetState ''agents'']) [ToastError]
     @ [SetState ''loading'']"

definition PhantombusterImport_handleImport :: "bool \<Rightarrow> bool \<Rightarrow> unit outcome \<Rightarrow> effect list" where
  "PhantombusterImport_handleImport onImportComplete onClose r =
     [SetState ''importing'', SetState ''selectedAgent''] @
     try_await POST [''api'', ''phantombuster'', ''import-leads''] NoBody r
       (\<lambda>d. ToastSuccess #
            (if onImportComplete then [Call ''onImportComplete''] else []) @
            (if onClose then [Call ''onClose''] else []))
       [ToastError]
     @ [SetState ''importing'', SetState ''selectedAgent'']"

text \<open>
  \<open>BulkLeadEnrichment.handleEnrich\<close>: \<open>updates\<close> are the ids of the leads that the parsed
  lines matched, one request each.
\<close>

definition handleEnrich ::
  "string list \<Rightarrow> bool \<Rightarrow> bool \<Rightarrow> (nat \<Rightarrow> unit outcome) \<Rightarrow> effect list" where
  "handleEnrich updates onComplete onClose rs =
     SetState ''processing'' #
     try_await_each PATCH (map (\<lambda>leadId. ([''api'', ''leads'', leadId], Body)) updates) rs 0
       (ToastSuccess #
          (if onComplete then [Call ''onComplete''] else []) @
          (if onClose then [Call ''onClose''] else []))
       [ToastError]
     @ [SetState ''processing'']"

subsection \<open>AIAgentStudio, CampaignBuilderV2, LeadPersonaPanel\<close>

text \<open>
  Source: src/frontend/src/AIAgentStudio.js, lines 33 to 61;
  src/frontend/src/CampaignBuilderV2.js, lines 40 to 71, 195 to 206 and 285 to 311;
  src/frontend/src/LeadPersonaPanel.js, lines 26 to 65.  The client of CampaignBuilderV2
  has \<^verbatim>\<open>BACKEND_URL\<close> as its base URL and is given paths that start with /api.
\<close>

definition AIAgentStudio_fetchConfig :: "unit outcome \<Rightarrow> effect list" where
  "AIAgentStudio_fetchConfig r =
     try_await GET [''api'', ''ai-agent'', ''config''] NoBody r
       (\<lambda>d. [SetState ''config'']) [ToastError]
     @ [SetState ''loading'']"

definition AIAgentStudio_fetchUsage :: "unit outcome \<Rightarrow> effect list" where
  "AIAgentStudio_fetchUsage r =
     try_await GET [''api'', ''ai-agent'', ''usage''] NoBody r
       (\<lambda>d. [SetState ''usage'']) [ConsoleError]"

definition AIAgentStudio_saveConfig :: "unit outcome \<Rightarrow> effect list" where
  "AIAgentStudio_saveConfig r =
     try_await POST [''api'', ''ai-agent'', ''config''] Body r
       (\<lambda>d. [ToastSuccess, SetState ''editing'', Call ''fetchUsage'']) [ToastError]"

text \<open>
  \<open>CampaignBuilderV2.fetchCampaign\<close>: the response data says whether the campaign status is
  one of test_phase, approved, active.
\<close>

definition CampaignBuilderV2_fetchCampaign :: "string \<Rightarrow> bool outcome \<Rightarrow> effect list" where
  "CampaignBuilderV2_fetchCampaign campaignId r =
     try_await GET [''api'', ''v2'', ''campaigns'', campaignId] NoBody r
       (\<lambda>testing. SetState ''campaign'' # (if testing then [Call ''fetchMessages''] else []))
       [ToastError]
     @ [SetState ''loading'']"

definition CampaignBuilderV2_fetchLeads :: "unit outcome \<Rightarrow> effect list" where
  "CampaignBuilderV2_fetchLeads r =
     try_await GET [''api'', ''leads''] NoBody r (\<lambda>d. [SetState ''leads'']) [ConsoleError]"

definition CampaignBuilderV2_fetchMessages :: "string \<Rightarrow> unit outcome \<Rightarrow> effect list" where
  "CampaignBuilderV2_fetchMessages campaignId r =
     try_await GET [''api'', ''v2'', ''campaigns'', campaignId, ''messages''] NoBody r
       (\<lambda>d. [SetState ''messages'']) [ConsoleError]"

definition OverviewTab_handleSave :: "string \<Rightarrow> unit outcome \<Rightarrow> effect list" where
  "OverviewTab_handleSave campaignId r =
     try_await PATCH [''api'', ''v2'', ''campaigns'', campaignId] Body r
       (\<lambda>d. [ToastSuccess, Call ''onUpdate'']) [ToastError]"

definition ProductInfoTab_handleFileUpload ::
  "jsstring option \<Rightarrow> string \<Rightarrow> unit outcome \<Rightarrow> effect list" where
  "ProductInfoTab_handleFileUpload file campaignId r =
     upload file [''api'', ''v2'', ''campaigns'', campaignId, ''product-info'', ''upload''] r
       [ToastSuccess, Call ''onUpdate'']"

text \<open>
  LeadPersonaPanel: \<open>leadName\<close> and \<open>leadUrl\<close> are \<^verbatim>\<open>lead.name\<close> and \<^verbatim>\<open>lead.linkedin_url\<close>;
  \<open>onUpdate\<close>: the parent passed the optional \<^verbatim>\<open>onUpdate\<close> callback.  The regeneration
  handler calls it from a three-second timer.
\<close>

definition handleRegeneratePersona ::
  "jsstring option \<Rightarrow> jsstring option \<Rightarrow> string \<Rightarrow> bool \<Rightarrow> unit outcome \<Rightarrow> effect list" where
  "handleRegeneratePersona leadName leadUrl leadId onUpdate r =
     (if \<not> truthy leadName \<or> \<not> truthy leadUrl then [ToastError]
      else SetState ''regenerating'' #
           try_await POST [''api'', ''leads'', leadId, ''regenerate-persona''] NoBody r
             (\<lambda>d. ToastSuccess # (if onUpdate then [CallLater ''onUpdate''] else []))
             [ToastError]
           @ [SetState ''regenerating''])"

definition handleSavePersona :: "string \<Rightarrow> bool \<Rightarrow> unit outcome \<Rightarrow> effect list" where
  "handleSavePersona leadId onUpdate r =
     try_await PATCH [''api'', ''leads'', leadId] Body r
       (\<lambda>d. [ToastSuccess, SetState ''editingPersona''] @
            (if onUpdate then [Call ''onUpdate''] else []))
       [ToastError]"

definition handleGeneratePersona ::
  "jsstring option \<Rightarrow> jsstring option \<Rightarrow> string \<Rightarrow> bool \<Rightarrow> unit outcome \<Rightarrow> effect list" where
  "handleGeneratePersona leadName leadUrl leadId onUpdate r =
     handleRegeneratePersona leadName leadUrl leadId onUpdate r"

subsection \<open>CampaignBuilderV2 components: StepTab, ReviewMessagesTab, ScheduleTab\<close>

text \<open>
  Source: src/frontend/src/LeadPersonaPanel.js, lines 256 to 293, 451 to 520 and 695 to 723
  (the components file stored after LeadPersonaPanel).
\<close>

definition handleStepUpdate :: "string \<Rightarrow> string \<Rightarrow> unit outcome \<Rightarrow> effect list" where
  "handleStepUpdate campaignId stepNumber r =
     try_await PATCH [''api'', ''v2'', ''campaigns'', campaignId, ''steps'', stepNumber] Body r
       (\<lambda>d. [ToastSuccess, Call ''onUpdate'']) [ToastError]"

definition handleBestPracticesUpload ::
  "jsstring option \<Rightarrow> string \<Rightarrow> string \<Rightarrow> unit outcome \<Rightarrow> effect list" where
  "handleBestPracticesUpload file campaignId stepNumber r =
     upload file
       [''api'', ''v2'', ''campaigns'', campaignId, ''steps'', stepNumber, ''best-practices''] r
       [ToastSuccess, Call ''onUpdate'']"

text \<open>\<open>selected\<close> is \<^verbatim>\<open>campaign.selected_lead_ids.length\<close>.\<close>

definition generateTestMessages :: "nat \<Rightarrow> unit outcome \<Rightarrow> effect list" where
  "generateTestMessages selected r =
     (if selected < 3 then [ToastError]
      else SetState ''generating'' #
           try_await POST [''api'', ''v2'', ''campaigns'', ''generate-test-messages''] Body r
             (\<lambda>d. [ToastSuccess, Call ''onUpdate'']) [ToastError]
           @ [SetState ''generating''])"

definition generateBulkMessages :: "bool \<Rightarrow> unit outcome \<Rightarrow> effect list" where
  "generateBulkMessages test_approved r =
     (if \<not> test_approved then [ToastError]
      else SetState ''generating'' #
           try_await POST [''api'', ''v2'', ''campaigns'', ''generate-bulk-messages''] Body r
             (\<lambda>d. [ToastSuccess, Call ''onUpdate'']) [ToastError]
           @ [SetState ''generating''])"

definition approveTestPhase :: "string \<Rightarrow> unit outcome \<Rightarrow> effect list" where
  "approveTestPhase campaignId r =
     try_await POST [''api'', ''v2'', ''campaigns'', campaignId, ''approve-test''] NoBody r
       (\<lambda>d. [ToastSuccess, Call ''onUpdate'']) [ToastError]"

definition regenerateMessage :: "string \<Rightarrow> unit outcome \<Rightarrow> effect list" where
  "regenerateMessage messageId r =
     try_await POST [''api'', ''v2'', ''campaigns'', ''regenerate-message'', messageId] NoBody r
       (\<lambda>d. [ToastSuccess, Call ''onUpdate'']) [ToastError]"

definition updateMessage :: "string \<Rightarrow> unit outcome \<Rightarrow> effect list" where
  "updateMessage messageId r =
     try_await PATCH [''api'', ''v2'', ''campaigns'', ''messages'', messageId] Body r
       (\<lambda>d. [ToastSuccess, SetState ''editingMessage'', Call ''onUpdate'']) [ToastError]"

definition ScheduleTab_handleSave :: "string \<Rightarrow> unit outcome \<Rightarrow> effect list" where
  "ScheduleTab_handleSave campaignId r =
     try_await PATCH [''api'', ''v2'', ''campaigns'', campaignId] Body r
       (\<lambda>d. [ToastSuccess, Call ''onUpdate'']) [ToastError]"

text \<open>\<open>start_date\<close> is \<^verbatim>\<open>schedule.start_date\<close>, \<open>None\<close> when absent or null.\<close>

definition handleActivate ::
  "bool \<Rightarrow> jsstring option \<Rightarrow> string \<Rightarrow> unit outcome \<Rightarrow> effect list" where
  "handleActivate test_approved start_date campaignId r =
     (if \<not> test_approved then [ToastError]
      else if \<not> truthy start_date then [ToastError]
      else try_await POST [''api'', ''v2'', ''campaigns'', campaignId, ''activate''] NoBody r
             (\<lambda>d. [ToastSuccess, Call ''onUpdate'']) [ToastError])"

subsection \<open>PerContactMessagePreview\<close>

text \<open>
  Source: src/frontend/src/PerContactMessagePreview.js, lines 24 to 47.
\<close>

definition PerContactMessagePreview_fetchMessages ::
  "string \<Rightarrow> string \<Rightarrow> unit outcome \<Rightarrow> effect list" where
  "PerContactMessagePreview_fetchMessages campaignId leadId r =
     try_await GET [''api'', ''campaigns'', campaignId, ''preview-messages'', leadId] NoBody r
       (\<lambda>d. [SetState ''messages'']) [ToastError]
     @ [SetState ''loading'']"

definition regenerateStep :: "string \<Rightarrow> unit outcome \<Rightarrow> effect list" where
  "regenerateStep campaignId r =
     SetState ''regenerating'' #
     try_await POST [''api'', ''campaigns'', campaignId, ''regenerate-message''] Body r
       (\<lambda>d. [ToastSuccess, Call ''fetchMessages'']) [ToastError]
     @ [SetState ''regenerating'']"

section \<open>The handler runs of the repository\<close>

text \<open>
  \<open>runs h t\<close>: the handler named \<open>h\<close> can run with trace \<open>t\<close>, for some inputs and some
  behaviour of the backend.  The relation lists every function of the repository that
  sends a request through the HTTP client, and the two step handlers of CampaignBuilder
  that stand where a request would be.  Handlers that only change local state (toggling,
  editing a form field, switching a tab) are not listed.  A handler that is the same in
  both copies of a file is listed once; one that differs between the copies is listed
  twice.
\<close>

inductive runs :: "string \<Rightarrow> effect list \<Rightarrow> bool" where
  handleAuth: "runs ''AuthHandler.handleAuth'' (AuthHandler_handleAuth sessionId sessionToken r)"
| checkAuth: "runs ''ProtectedRoute.checkAuth'' (ProtectedRoute_checkAuth sessionToken r)"
| handleLogout: "runs ''DashboardLayout.handleLogout'' (DashboardLayout_handleLogout r)"
| fetchOverview: "runs ''Dashboard.fetchOverview'' (Dashboard_fetchOverview r)"
| fetchCampaigns: "runs ''CampaignsPage.fetchCampaigns'' (CampaignsPage_fetchCampaigns r)"
| campaignCreate: "runs ''CampaignsPage.handleCreate'' (CampaignsPage_handleCreate newName rc)"
| campaignCreateEarlier:
    "runs ''CampaignsPage.handleCreate (earlier)'' (CampaignsPage_handleCreate_earlier newName rc)"
| leadsFetch: "runs ''LeadsPage.fetchLeads'' (LeadsPage_fetchLeads r)"
| leadCreate: "runs ''LeadsPage.handleCreate'' (LeadsPage_handleCreate leadName r)"
| leadUpdate: "runs ''LeadsPage.handleUpdate'' (LeadsPage_handleUpdate leadId leadName r)"
| leadDelete: "runs ''LeadsPage.handleDelete'' (LeadsPage_handleDelete confirmed leadId r)"
| leadImport: "runs ''LeadsPage.handleImport'' (LeadsPage_handleImport importText r)"
| fetchInsights: "runs ''AnalyticsPage.fetchInsights'' (AnalyticsPage_fetchInsights r)"
| generateInsights: "runs ''AnalyticsPage.generateInsights'' (AnalyticsPage_generateInsights r)"
| researchFetch: "runs ''ResearchPage.fetchLeads'' (ResearchPage_fetchLeads r)"
| research:
    "runs ''ResearchPage.handleResearch''
       (ResearchPage_handleResearch leadUrl leadNm leadCompany rb)"
| researchEarlier:
    "runs ''ResearchPage.handleResearch (earlier)'' (ResearchPage_handleResearch_earlier leadUrl r)"
| fetchIntegrations: "runs ''SettingsPage.fetchIntegrations'' (SettingsPage_fetchIntegrations r)"
| fetchApiKeys: "runs ''SettingsPage.fetchApiKeys'' (SettingsPage_fetchApiKeys r)"
| saveApiKeys: "runs ''SettingsPage.saveApiKeys'' (SettingsPage_saveApiKeys r)"
| connectSheets:
    "runs ''SettingsPage.handleConnectSheets'' (SettingsPage_handleConnectSheets sheetsUrl r)"
| syncSheets: "runs ''SettingsPage.handleSyncSheets'' (SettingsPage_handleSyncSheets r)"
| messagesFetch: "runs ''MessagesPage.fetchMessages'' (MessagesPage_fetchMessages r)"
| sendReply: "runs ''MessagesPage.handleSendReply'' (MessagesPage_handleSendReply replyText r)"
| builderFetch:
    "runs ''CampaignBuilder.fetchCampaign'' (fetchCampaign campaignId initializing rd rs)"
| builderFetchLater:
    "runs ''CampaignBuilder.fetchCampaign (later)''
       (fetchCampaign_later campaignId initializing rd rs)"
| initialize:
    "runs ''CampaignBuilder.initializeDefaultSteps''
       (initializeDefaultSteps campaignId initializing rs)"
| initializeLater:
    "runs ''CampaignBuilder.initializeDefaultSteps (later)''
       (initializeDefaultSteps_later campaignId initializing rs)"
| builderLeads: "runs ''CampaignBuilder.fetchLeads'' (CampaignBuilder_fetchLeads r)"
| addStep: "runs ''CampaignBuilder.addStep'' (addStep campaignId r)"
| saveStep: "runs ''CampaignBuilder.saveStep'' (saveStep stepIndex)"
| setSchedule: "runs ''CampaignBuilder.setSchedule'' (setSchedule campaignId r)"
| validate: "runs ''CampaignBuilder.validateCampaign'' (validateCampaign campaignId rb)"
| activate: "runs ''CampaignBuilder.activateCampaign'' (activateCampaign campaignId rb)"
| assignLeads: "runs ''CampaignBuilder.assignLeads'' (assignLeads campaignId r)"
| pause: "runs ''CampaignBuilder.pauseCampaign'' (pauseCampaign campaignId r)"
| saveEdits: "runs ''CampaignBuilder.saveCampaignEdits'' (saveCampaignEdits campaignId r)"
| generateAI: "runs ''CampaignBuilder.generateAIMessage'' (generateAIMessage ra)"
| generateAll: "runs ''CampaignBuilder.generateAllMessages'' (generateAllMessages campaignId r)"
| selectProfile: "runs ''CampaignBuilder.onSelectProfile'' (onSelectProfile campaignId r)"
| fetchProfile: "runs ''AgentProfileTab.fetchProfile'' (AgentProfileTab_fetchProfile r)"
| productUpload:
    "runs ''ProductInfoEditor.handleFileUpload''
       (ProductInfoEditor_handleFileUpload file campaignId r)"
| aiGenerate:
    "runs ''StepsBuilder.handleAIGenerate'' (handleAIGenerate leadWithPersona productName ra)"
| stepTiming: "runs ''StepsBuilder.updateStepTiming'' (updateStepTiming stepIndex)"
| fetchAnalytics:
    "runs ''CampaignAnalytics.fetchAnalytics'' (CampaignAnalytics_fetchAnalytics campaignId r)"
| fetchProfiles:
    "runs ''AIAgentProfileManager.fetchProfiles'' (AIAgentProfileManager_fetchProfiles r)"
| profileCreate:
    "runs ''AIAgentProfileManager.handleCreate''
       (AIAgentProfileManager_handleCreate profileName onSelect r)"
| v2Fetch: "runs ''CampaignsV2Page.fetchCampaigns'' (CampaignsV2Page_fetchCampaigns r)"
| v2Create: "runs ''CampaignsV2Page.createCampaign'' (CampaignsV2Page_createCampaign newName rc)"
| v2Delete:
    "runs ''CampaignsV2Page.deleteCampaign'' (CampaignsV2Page_deleteCampaign confirmed campaignId r)"
| fetchAgents: "runs ''PhantombusterImport.fetchAgents'' (PhantombusterImport_fetchAgents r)"
| phantomImport:
    "runs ''PhantombusterImport.handleImport''
       (PhantombusterImport_handleImport onImportComplete onClose r)"
| enrich: "runs ''BulkLeadEnrichment.handleEnrich'' (handleEnrich updates onComplete onClose rs)"
| fetchConfig: "runs ''AIAgentStudio.fetchConfig'' (AIAgentStudio_fetchConfig r)"
| fetchUsage: "runs ''AIAgentStudio.fetchUsage'' (AIAgentStudio_fetchUsage r)"
| saveConfig: "runs ''AIAgentStudio.saveConfig'' (AIAgentStudio_saveConfig r)"
| builderV2Fetch:
    "runs ''CampaignBuilderV2.fetchCampaign'' (CampaignBuilderV2_fetchCampaign campaignId rb)"
| builderV2Leads: "runs ''CampaignBuilderV2.fetchLeads'' (CampaignBuilderV2_fetchLeads r)"
| builderV2Messages:
    "runs ''CampaignBuilderV2.fetchMessages'' (CampaignBuilderV2_fetchMessages campaignId r)"
| overviewSave: "runs ''OverviewTab.handleSave'' (OverviewTab_handleSave campaignId r)"
| productTabUpload:
    "runs ''ProductInfoTab.handleFileUpload'' (ProductInfoTab_handleFileUpload file campaignId r)"
| regeneratePersona:
    "runs ''LeadPersonaPanel.handleRegeneratePersona''
       (handleRegeneratePersona leadNm leadUrl leadId onUpdate r)"
| savePersona: "runs ''LeadPersonaPanel.handleSavePersona'' (handleSavePersona leadId onUpdate r)"
| generatePersona:
    "runs ''LeadPersonaPanel.handleGeneratePersona''
       (handleGeneratePersona leadNm leadUrl leadId onUpdate r)"
| stepUpdate: "runs ''StepTab.handleStepUpdate'' (handleStepUpdate campaignId stepNumber r)"
| bestPractices:
    "runs ''StepTab.handleBestPracticesUpload''
       (handleBestPracticesUpload file campaignId stepNumber r)"
| testMessages: "runs ''ReviewMessagesTab.generateTestMessages'' (generateTestMessages selected r)"
| bulkMessages:
    "runs ''ReviewMessagesTab.generateBulkMessages'' (generateBulkMessages test_approved r)"
| approveTest: "runs ''ReviewMessagesTab.approveTestPhase'' (approveTestPhase campaignId r)"
| regenerateMessage: "runs ''ReviewMessagesTab.regenerateMessage'' (regenerateMessage messageId r)"
| updateMessage: "runs ''ReviewMessagesTab.updateMessage'' (updateMessage messageId r)"
| scheduleSave: "runs ''ScheduleTab.handleSave'' (ScheduleTab_handleSave campaignId r)"
| scheduleActivate:
    "runs ''ScheduleTab.handleActivate'' (handleActivate test_approved start_date campaignId r)"
| previewFetch:
    "runs ''PerContactMessagePreview.fetchMessages''
       (PerContactMessagePreview_fetchMessages campaignId leadId r)"
| regenerateStep: "runs ''PerContactMessagePreview.regenerateStep'' (regenerateStep campaignId r)"

section \<open>Properties of traces\<close>

text \<open>What a handler does after an awaited request has failed: the rest of the trace.\<close>

fun after_rejection :: "effect list \<Rightarrow> effect list option" where
  "after_rejection [] = None"
| "after_rejection (e # es) = (if e = Rejected then Some es else after_rejection es)"

text \<open>
  The state variables that only say that a request is in flight.  Each is set before the
  request and reset after it.
\<close>

definition in_flight_flags :: "string list" where
  "in_flight_flags =
     [''loading'', ''generating'', ''researching'', ''syncing'', ''sending'',
      ''initializingSteps'', ''generatingAll'', ''generatingAI'', ''uploading'', ''importing'',
      ''selectedAgent'', ''processing'', ''regenerating'']"

fun modifies_state :: "effect \<Rightarrow> bool" where
  "modifies_state (SetState v) = (v \<notin> set in_flight_flags)"
| "modifies_state (StorageSet k) = True"
| "modifies_state (StorageRemove k) = True"
| "modifies_state e = False"

fun requests :: "effect list \<Rightarrow> (http_method \<times> string list \<times> payload) list" where
  "requests [] = []"
| "requests (Request m p b # es) = (m, p, b) # requests es"
| "requests (e # es) = requests es"

text \<open>
  The endpoint families the specification lists: /api/campaigns, /api/leads, /api/messages,
  /api/ai-agent-profiles, /api/analytics/*, /api/settings/*, /api/phantombuster/* and
  /api/research/persona.  A family holds the paths below its prefix.
\<close>

fun listed_endpoint :: "string list \<Rightarrow> bool" where
  "listed_endpoint (root # family # rest) =
     (root = ''api'' \<and>
      (family = ''campaigns'' \<or> family = ''leads'' \<or> family = ''messages'' \<or>
       family = ''ai-agent-profiles'' \<or> family = ''analytics'' \<or> family = ''settings'' \<or>
       family = ''phantombuster'' \<or> (family = ''research'' \<and> rest = [''persona''])))"
| "listed_endpoint p = False"

text \<open>
  The families the code adds: /api/auth/*, /api/ai-agent/*, /api/v2/campaigns and
  /api/integrations/google-sheets/*.
\<close>

fun unlisted_endpoint :: "string list \<Rightarrow> bool" where
  "unlisted_endpoint (root # family # rest) =
     (root = ''api'' \<and>
      (family = ''auth'' \<or> family = ''ai-agent'' \<or>
       (family = ''v2'' \<and> take 1 rest = [''campaigns'']) \<or>
       (family = ''integrations'' \<and> take 1 rest = [''google-sheets''])))"
| "unlisted_endpoint p = False"

text \<open>The routes a run navigates to.\<close>

definition navigations :: "effect list \<Rightarrow> string list list" where
  "navigations t = concat (map (\<lambda>e. case e of Navigate p \<Rightarrow> [p] | _ \<Rightarrow> []) t)"


definition mutations :: "effect list \<Rightarrow> (http_method \<times> string list \<times> payload) list" where
  "mutations t = filter (\<lambda>(m, p, b). m \<noteq> GET) (requests t)"

text \<open>
  Refreshing the rendered data: a call of one of the component's own fetch functions, or
  of the callback through which the parent re-fetches.
\<close>

definition refresh_calls :: "string list" where
  "refresh_calls =
     [''fetchCampaign'', ''fetchCampaigns'', ''fetchLeads'', ''fetchMessages'',
      ''fetchProfiles'', ''fetchIntegrations'', ''fetchApiKeys'', ''fetchUsage'', ''onUpdate'',
      ''onComplete'', ''onImportComplete'']"

fun refresh :: "effect \<Rightarrow> bool" where
  "refresh (Call f) = (f \<in> set refresh_calls)"
| "refresh (CallLater f) = (f \<in> set refresh_calls)"
| "refresh e = False"

definition refreshes :: "effect list \<Rightarrow> bool" where
  "refreshes t \<longleftrightarrow> filter refresh t \<noteq> []"









subsection \<open>Groups of handlers\<close>

text \<open>The handlers that end the session when the request fails.\<close>

definition session_handlers :: "string list" where
  "session_handlers =
     [''AuthHandler.handleAuth'', ''ProtectedRoute.checkAuth'', ''DashboardLayout.handleLogout'']"

text \<open>
  The handlers whose catch branch shows no toast: it logs to the console or clears the
  session.
\<close>

definition silent_handlers :: "string list" where
  "silent_handlers =
     [''ProtectedRoute.checkAuth'', ''DashboardLayout.handleLogout'',
      ''AnalyticsPage.fetchInsights'', ''SettingsPage.fetchApiKeys'',
      ''CampaignBuilder.fetchLeads'', ''CampaignBuilder.initializeDefaultSteps'',
      ''AgentProfileTab.fetchProfile'', ''AIAgentProfileManager.fetchProfiles'',
      ''AIAgentStudio.fetchUsage'', ''CampaignBuilderV2.fetchLeads'',
      ''CampaignBuilderV2.fetchMessages'']"

text \<open>The two inline handlers whose request is not awaited inside try/catch.\<close>

definition unguarded_handlers :: "string list" where
  "unguarded_handlers = [''CampaignBuilder.pauseCampaign'', ''CampaignBuilder.onSelectProfile'']"

text \<open>
  Two handlers show a toast for one of their requests only: \<open>AuthHandler.handleAuth\<close> for the
  session exchange but not for the session check, the first \<open>CampaignBuilder.fetchCampaign\<close>
  for the GET but not for the step POSTs.
\<close>

definition partly_silent_handlers :: "string list" where
  "partly_silent_handlers = [''AuthHandler.handleAuth'', ''CampaignBuilder.fetchCampaign'']"





section \<open>CampaignBuilder: calls of fetchCampaign that overlap\<close>

text \<open>
  Source: src/unnamed/part_000, lines 29, 38 to 51 and 53 to 137; src/unnamed/part_001,
  lines 31, 45 to 63 and 65 to 150.

  \<^verbatim>\<open>const [initializingSteps, setInitializingSteps] = useState(false);\<close>
  \<open>initializingSteps\<close> is a constant of one render of the component.  \<open>fetchCampaign\<close> and
  \<open>initializeDefaultSteps\<close> are created by that render and read its constant, for as long
  as the call runs; \<open>setInitializingSteps\<close> changes what the next render reads.  A call
  runs without interruption up to its next \<^verbatim>\<open>await\<close>, so an execution of several calls
  is a sequence of such segments, taken from the calls in any order.

  \<open>builder\<close> is the component and the backend as far as the default steps go: the value
  that the next render reads for \<open>initializingSteps\<close>, and the step POSTs sent so far.  A
  \<open>fetch_call\<close> is one call of \<open>fetchCampaign\<close>: the constant of its render, the campaign,
  what the backend answers to its GET and to its step POSTs, and the \<^verbatim>\<open>await\<close> it is
  waiting at.  The other state the call sets (the campaign, the loading flag), its toasts
  and the refresh it starts after the last POST are left out; the traces
  \<open>fetchCampaign\<close> and \<open>fetchCampaign_later\<close> have them.
\<close>

record builder =
  flag_now :: bool
  posted :: "(string list \<times> payload) list"

datatype await_point = AwaitsCampaign | AwaitsStep nat | Returned

record fetch_call =
  closure_flag :: bool
  call_campaign :: string
  campaign_reply :: "campaign_data outcome"
  step_replies :: "nat \<Rightarrow> unit outcome"
  waits_at :: await_point

text \<open>A call made from a render of the component in state \<open>s\<close>.\<close>

definition call_from_render ::
  "builder \<Rightarrow> string \<Rightarrow> campaign_data outcome \<Rightarrow> (nat \<Rightarrow> unit outcome) \<Rightarrow> fetch_call" where
  "call_from_render s campaignId r rs =
     \<lparr>closure_flag = flag_now s, call_campaign = campaignId, campaign_reply = r,
      step_replies = rs, waits_at = AwaitsCampaign\<rparr>"

text \<open>
  One segment of a call.  When the GET has resolved with a campaign without steps and the
  constant of the render is false, the call passes the guard (in the later version also
  the test in \<open>fetchCampaign\<close>), sets the flag and sends the first POST.  When a POST has
  resolved it sends the next one, or, after the last, resets the flag.  A POST that fails
  ends the loop, and the flag is reset.
\<close>

definition advance :: "builder \<Rightarrow> fetch_call \<Rightarrow> builder \<times> fetch_call" where
  "advance s c =
     (case waits_at c of
        AwaitsCampaign \<Rightarrow>
          (case campaign_reply c of
             Fails \<Rightarrow> (s, c\<lparr>waits_at := Returned\<rparr>)
           | Returns d \<Rightarrow>
               if no_message_steps d \<and> \<not> closure_flag c
               then (s\<lparr>flag_now := True,
                       posted := posted s @ [defaultSteps (call_campaign c) ! 0]\<rparr>,
                     c\<lparr>waits_at := AwaitsStep 0\<rparr>)
               else (s, c\<lparr>waits_at := Returned\<rparr>))
      | AwaitsStep k \<Rightarrow>
          (case step_replies c k of
             Fails \<Rightarrow> (s\<lparr>flag_now := False\<rparr>, c\<lparr>waits_at := Returned\<rparr>)
           | Returns u \<Rightarrow>
               if Suc k < length (defaultSteps (call_campaign c))
               then (s\<lparr>posted := posted s @ [defaultSteps (call_campaign c) ! Suc k]\<rparr>,
                     c\<lparr>waits_at := AwaitsStep (Suc k)\<rparr>)
               else (s\<lparr>flag_now := False\<rparr>, c\<lparr>waits_at := Returned\<rparr>))
      | Returned \<Rightarrow> (s, c))"

text \<open>
  An execution: the schedule names, segment by segment, the call that runs next.
\<close>

fun execute :: "nat list \<Rightarrow> builder \<times> fetch_call list \<Rightarrow> builder \<times> fetch_call list" where
  "execute [] cfg = cfg"
| "execute (i # schedule) (s, calls) =
     (if i < length calls
      then (case advance s (calls ! i) of (s', c') \<Rightarrow> execute schedule (s', calls[i := c']))
      else execute schedule (s, calls))"

text \<open>A call that is in the loop of \<open>initializeDefaultSteps\<close>, waiting for a step POST.\<close>

definition posting_steps :: "fetch_call \<Rightarrow> bool" where
  "posting_steps c = (case waits_at c of AwaitsStep k \<Rightarrow> True | _ \<Rightarrow> False)"

subsection \<open>Example data\<close>

definition msg_a1 :: message where
  "msg_a1 = \<lparr>msg_id = ''m1'', lead_id = ''lead-a'', step_number = 1, subject = ''Hello'',
     content = ''first''\<rparr>"

definition msg_b1 :: message where
  "msg_b1 = \<lparr>msg_id = ''m2'', lead_id = ''lead-b'', step_number = 1, subject = ''Hello'',
     content = ''second''\<rparr>"

definition msg_a2 :: message where
  "msg_a2 = \<lparr>msg_id = ''m3'', lead_id = ''lead-a'', step_number = 2, subject = ''Again'',
     content = ''third''\<rparr>"

definition msg_inherited :: message where
  "msg_inherited = \<lparr>msg_id = ''m4'', lead_id = ''constructor'', step_number = 1,
     subject = ''Hello'', content = ''fourth''\<rparr>"

definition always :: "'a \<Rightarrow> nat \<Rightarrow> 'a outcome" where
  "always d i = Returns d"

text \<open>
  A builder that is not initializing, a campaign without steps, and a call of
  \<open>fetchCampaign\<close> made from the render of that builder, for which the backend answers the GET
  with the campaign and accepts every POST.
\<close>

definition idle_builder :: builder where
  "idle_builder = \<lparr>flag_now = False, posted = []\<rparr>"

definition campaign_without_steps :: campaign_data where
  "campaign_without_steps = \<lparr>message_steps = Some 0, email_channel = True\<rparr>"

definition early_call :: fetch_call where
  "early_call = call_from_render idle_builder ''c1'' (Returns campaign_without_steps) (always ())"

section \<open>The import rows\<close>

lemma split_not_Nil: "split sep s \<noteq> []"
  by (induction s) (auto split: list.splits)

lemma destructure5_field_at:
  "destructure5 xs = (field_at xs 0, field_at xs 1, field_at xs 2, field_at xs 3, field_at xs 4)"
  by (cases xs rule: destructure5.cases) (simp_all add: field_at_def)

lemma parse_line_row_of_line: "parse_line line = row_of_line line"
  by (simp add: parse_line_def row_of_line_def destructure5_field_at Let_def)

lemma name_row_of_line: "name (row_of_line line) = Some (trim (hd (split comma line)))"
  using split_not_Nil [of comma line]
  by (cases "split comma line") (simp_all add: row_of_line_def field_at_def Let_def)

lemma filter_map_kept_rows:
  "filter (\<lambda>lead. truthy (name lead)) (map parse_line ls) = kept_rows ls"
  by (induction ls) (simp_all add: parse_line_row_of_line name_row_of_line)

lemma import_leads_rows: "import_leads importText = spec_rows (trim importText)"
  by (simp add: import_leads_def spec_rows_def slice1_def Let_def filter_map_kept_rows drop_Suc)

lemma requests_append: "requests (xs @ ys) = requests xs @ requests ys"
  by (induction xs rule: requests.induct) simp_all

text \<open>
  C8, as the code has it.  For every import text, the import handler sends exactly one
  request, a POST to /leads/import, and its rows are those obtained from the import text
  with the white space at both of its ends removed: the first (header) line dropped, each
  remaining line split on commas, the fields trimmed and mapped positionally to name,
  email, linkedin_url, company, title, the rows with a non-empty name kept in input order.
\<close>

theorem handleImport_posts_rows:
  "requests (LeadsPage_handleImport importText r) =
     [(POST, [''api'', ''leads'', ''import''], Leads (spec_rows (trim importText)))]"
  by (cases r) (simp_all add: LeadsPage_handleImport_def try_await_def import_leads_rows)

theorem handleImport_posts_rows_witness:
  "requests (LeadsPage_handleImport (ascii ''name,email\<newline> Alice , a@x.com\<newline>,b@x.com'') (Returns ())) =
     [(POST, [''api'', ''leads'', ''import''],
       Leads [\<lparr>name = Some (ascii ''Alice''), email = Some (ascii ''a@x.com''),
                linkedin_url = None, company = None, title = None\<rparr>])]"
  using handleImport_posts_rows [of "ascii ''name,email\<newline> Alice , a@x.com\<newline>,b@x.com''" "Returns ()"]
  by (simp add: ascii_def spec_rows_def trim_def is_white_space_def newline_def comma_def
      row_of_line_def field_at_def)

text \<open>
  C8 as stated drops the first line of the import text itself.  An import text that starts
  with an empty line shows the difference: the code trims the text first, so it drops the
  line \<open>name,email\<close> as the header and posts one row, where the rows of the untrimmed text
  would keep \<open>name,email\<close> as a row.
\<close>

theorem handleImport_untrimmed_counterexample:
  "requests (LeadsPage_handleImport (ascii ''\<newline>name,email\<newline>Alice,a@x.com'') (Returns ())) \<noteq>
     [(POST, [''api'', ''leads'', ''import''],
       Leads (spec_rows (ascii ''\<newline>name,email\<newline>Alice,a@x.com'')))]"
  by (simp add: LeadsPage_handleImport_def try_await_def ascii_def import_leads_def
      spec_rows_def trim_def is_white_space_def newline_def comma_def slice1_def
      row_of_line_def parse_line_def field_at_def)

section \<open>Toggling a lead\<close>

lemma filter_mset_neq_absent:
  "x \<notin> set xs \<Longrightarrow> filter_mset (\<lambda>i. i \<noteq> x) (mset xs) = mset xs"
  by (induction xs) auto

lemma mset_filter_neq_distinct:
  "distinct xs \<Longrightarrow> x \<in> set xs \<Longrightarrow>
   add_mset x (filter_mset (\<lambda>i. i \<noteq> x) (mset xs)) = mset xs"
  by (induction xs) (auto simp: filter_mset_neq_absent)

lemma toggleLead_present:
  "leadId \<in> set prev \<Longrightarrow> toggleLead leadId prev = filter (\<lambda>i. i \<noteq> leadId) prev"
  by (simp add: toggleLead_def)

lemma toggleLead_absent:
  "leadId \<notin> set prev \<Longrightarrow> toggleLead leadId prev = prev @ [leadId]"
  by (simp add: toggleLead_def)

lemma toggleLead_twice_present:
  "leadId \<in> set prev \<Longrightarrow>
   toggleLead leadId (toggleLead leadId prev) = filter (\<lambda>i. i \<noteq> leadId) prev @ [leadId]"
  by (simp add: toggleLead_def)

lemma toggleLead_twice_absent:
  "leadId \<notin> set prev \<Longrightarrow> toggleLead leadId (toggleLead leadId prev) = prev"
  by (auto simp: toggleLead_def filter_id_conv)

text \<open>
  C9.  For every duplicate-free selection list and every lead id, toggleLead produces a
  list that contains the id if and only if the input did not, leaves the membership of
  every other id unchanged, and applying it twice with the same id restores the selected
  ids up to ordering: the same set, and indeed a permutation of the original list.  The
  result is duplicate-free again.
\<close>

theorem toggleLead_toggles:
  assumes "distinct prev"
  shows "(leadId \<in> set (toggleLead leadId prev) \<longleftrightarrow> leadId \<notin> set prev)
       \<and> (\<forall>other. other \<noteq> leadId \<longrightarrow>
             (other \<in> set (toggleLead leadId prev) \<longleftrightarrow> other \<in> set prev))
       \<and> set (toggleLead leadId (toggleLead leadId prev)) = set prev
       \<and> mset (toggleLead leadId (toggleLead leadId prev)) = mset prev
       \<and> distinct (toggleLead leadId prev)"
proof (cases "leadId \<in> set prev")
  case True
  have m: "mset (toggleLead leadId (toggleLead leadId prev)) = mset prev"
    using assms True by (simp add: toggleLead_twice_present mset_filter_neq_distinct)
  have s: "set (toggleLead leadId (toggleLead leadId prev)) = set prev"
    using m by (metis set_mset_mset)
  show ?thesis
    using True assms m s by (simp add: toggleLead_present)
next
  case False
  have t: "toggleLead leadId (toggleLead leadId prev) = prev"
    using False by (rule toggleLead_twice_absent)
  show ?thesis
    using False assms by (simp add: t) (simp add: toggleLead_absent)
qed

theorem toggleLead_toggles_witness:
  "distinct [''lead-1'', ''lead-2'']
   \<and> ''lead-2'' \<notin> set (toggleLead ''lead-2'' [''lead-1'', ''lead-2''])
   \<and> ''lead-1'' \<in> set (toggleLead ''lead-2'' [''lead-1'', ''lead-2''])
   \<and> mset (toggleLead ''lead-2'' (toggleLead ''lead-2'' [''lead-1'', ''lead-2'']))
       = mset [''lead-1'', ''lead-2'']"
  using toggleLead_toggles [of "[''lead-1'', ''lead-2'']" "''lead-2''"] by simp

section \<open>Grouping messages by lead\<close>

lemma map_of_set_property: "map_of (set_property acc k v) = (map_of acc)(k \<mapsto> v)"
  by (induction acc k v rule: set_property.induct) auto

lemma keys_set_property: "fst ` set (set_property acc k v) = insert k (fst ` set acc)"
  by (induction acc k v rule: set_property.induct) auto

lemma distinct_set_property:
  "distinct (map fst acc) \<Longrightarrow> distinct (map fst (set_property acc k v))"
  by (induction acc k v rule: set_property.induct) (auto simp: keys_set_property)

lemma group_step_ok:
  assumes "lead_id msg \<notin> set object_prototype_keys"
  shows "\<exists>g. group_step acc msg = Inr g
           \<and> map_of g = (map_of acc)(lead_id msg \<mapsto> group_of acc (lead_id msg) @ [msg])
           \<and> fst ` set g = insert (lead_id msg) (fst ` set acc)
           \<and> (distinct (map fst acc) \<longrightarrow> distinct (map fst g))"
proof (cases "map_of acc (lead_id msg)")
  case None
  then show ?thesis
    using assms
    by (simp add: group_step_def get_property_def group_of_def Let_def map_of_set_property
        keys_set_property distinct_set_property)
next
  case (Some ms)
  then show ?thesis
    by (simp add: group_step_def get_property_def group_of_def Let_def map_of_set_property
        keys_set_property distinct_set_property)
qed

lemma group_of_upd:
  "map_of g = (map_of acc)(k \<mapsto> v) \<Longrightarrow> group_of g k' = (if k' = k then v else group_of acc k')"
  by (simp add: group_of_def)

lemma reduce_groups_ok:
  assumes "\<forall>m \<in> set msgs. lead_id m \<notin> set object_prototype_keys"
    and "distinct (map fst acc)"
  shows "\<exists>g. reduce_groups acc msgs = Inr g
           \<and> distinct (map fst g)
           \<and> fst ` set g = fst ` set acc \<union> lead_id ` set msgs
           \<and> (\<forall>k. group_of g k = group_of acc k @ filter (\<lambda>m. lead_id m = k) msgs)"
  using assms
proof (induction msgs arbitrary: acc)
  case Nil
  then show ?case by simp
next
  case (Cons msg msgs)
  from Cons.prems have np: "lead_id msg \<notin> set object_prototype_keys" by simp
  from group_step_ok [OF np, of acc] obtain g1 where
    g1: "group_step acc msg = Inr g1"
    and m1: "map_of g1 = (map_of acc)(lead_id msg \<mapsto> group_of acc (lead_id msg) @ [msg])"
    and k1: "fst ` set g1 = insert (lead_id msg) (fst ` set acc)"
    and d1: "distinct (map fst g1)"
    using Cons.prems(2) by blast
  from Cons.prems have rest: "\<forall>m \<in> set msgs. lead_id m \<notin> set object_prototype_keys" by simp
  from Cons.IH [OF rest d1] obtain g where
    g: "reduce_groups g1 msgs = Inr g"
    and dg: "distinct (map fst g)"
    and kg: "fst ` set g = fst ` set g1 \<union> lead_id ` set msgs"
    and gg: "\<forall>k. group_of g k = group_of g1 k @ filter (\<lambda>m. lead_id m = k) msgs"
    by blast
  have "reduce_groups acc (msg # msgs) = Inr g" using g1 g by simp
  moreover have "fst ` set g = fst ` set acc \<union> lead_id ` set (msg # msgs)"
    using kg k1 by auto
  moreover have "\<forall>k. group_of g k = group_of acc k @ filter (\<lambda>m. lead_id m = k) (msg # msgs)"
    using gg group_of_upd [OF m1] by auto
  ultimately show ?case using dg by blast
qed

lemma snd_is_group_of:
  "distinct (map fst g) \<Longrightarrow> (k, ms) \<in> set g \<Longrightarrow> group_of g k = ms"
  by (simp add: group_of_def)

lemma concat_groups:
  assumes "distinct (map fst g)"
  shows "map snd g = map (group_of g) (map fst g)"
  using assms snd_is_group_of [of g] by (auto simp: map_eq_conv)

lemma mset_concat_filters:
  "distinct ks \<Longrightarrow>
   mset (concat (map (\<lambda>k. filter (\<lambda>m. f m = k) xs) ks)) = mset (filter (\<lambda>m. f m \<in> set ks) xs)"
proof (induction ks)
  case Nil
  then show ?case by simp
next
  case (Cons k ks)
  then have "k \<notin> set ks" by simp
  then have "mset (filter (\<lambda>m. f m = k) xs) + mset (filter (\<lambda>m. f m \<in> set ks) xs)
      = mset (filter (\<lambda>m. f m \<in> set (k # ks)) xs)"
    by (induction xs) auto
  with Cons show ?case by simp
qed

lemma mset_object_keys: "mset (object_keys g) = mset (map fst g)"
proof -
  have "mset (map fst g) =
      filter_mset (\<lambda>k. array_index k \<noteq> None) (mset (map fst g))
      + filter_mset (\<lambda>k. \<not> array_index k \<noteq> None) (mset (map fst g))"
    by (rule multiset_partition)
  then show ?thesis unfolding object_keys_def by simp
qed

lemma mset_concat_map: "mset (concat (map f ks)) = (\<Sum>k\<in>#mset ks. mset (f k))"
  by (induction ks) simp_all

lemma mset_concat_map_cong:
  "mset ks = mset ks' \<Longrightarrow> mset (concat (map f ks)) = mset (concat (map f ks'))"
  by (simp add: mset_concat_map)

text \<open>
  The grouping on the lists of messages none of whose lead ids is the name of a property
  that a plain object inherits.  It returns an object with one property per lead id that
  occurs; the group of a lead id is the list of the messages with that lead id in their
  input order, so each message is in exactly one group, the one keyed by its lead id.
  The concatenation of the groups, in creation order and in the order in which
  \<^verbatim>\<open>Object.keys\<close> lists them, is a permutation of the input.
\<close>

lemma messagesByLead_groups:
  assumes "\<forall>m \<in> set messages. lead_id m \<notin> set object_prototype_keys"
  shows "\<exists>g. messagesByLead messages = Inr g
           \<and> distinct (map fst g)
           \<and> fst ` set g = lead_id ` set messages
           \<and> (\<forall>k ms. (k, ms) \<in> set g \<longrightarrow> ms = filter (\<lambda>m. lead_id m = k) messages)
           \<and> mset (concat (map snd g)) = mset messages
           \<and> mset (concat (map (group_of g) (object_keys g))) = mset messages"
proof -
  from reduce_groups_ok [OF assms, of "[]"] obtain g where
    g: "reduce_groups [] messages = Inr g"
    and dg: "distinct (map fst g)"
    and kg: "fst ` set g = lead_id ` set messages"
    and gg: "\<forall>k. group_of g k = filter (\<lambda>m. lead_id m = k) messages"
    by (auto simp: group_of_def)
  have each: "\<forall>k ms. (k, ms) \<in> set g \<longrightarrow> ms = filter (\<lambda>m. lead_id m = k) messages"
    using snd_is_group_of [OF dg] gg by auto
  have "group_of g = (\<lambda>k. filter (\<lambda>m. lead_id m = k) messages)"
    using gg by (intro ext) simp
  then have "map snd g = map (\<lambda>k. filter (\<lambda>m. lead_id m = k) messages) (map fst g)"
    using concat_groups [OF dg] by (simp only:)
  then have "mset (concat (map snd g))
      = mset (concat (map (\<lambda>k. filter (\<lambda>m. lead_id m = k) messages) (map fst g)))"
    by (simp only:)
  also have "\<dots> = mset (filter (\<lambda>m. lead_id m \<in> set (map fst g)) messages)"
    using dg by (rule mset_concat_filters)
  also have "filter (\<lambda>m. lead_id m \<in> set (map fst g)) messages = messages"
    using kg by (simp add: filter_id_conv)
  finally have all: "mset (concat (map snd g)) = mset messages" .
  have "mset (concat (map (group_of g) (object_keys g)))
      = mset (concat (map (group_of g) (map fst g)))"
    by (rule mset_concat_map_cong) (rule mset_object_keys)
  also have "map (group_of g) (map fst g) = map snd g"
    using concat_groups [OF dg] by (simp only:)
  finally have keys: "mset (concat (map (group_of g) (object_keys g))) = mset messages"
    using all by (simp only:)
  show ?thesis
    unfolding messagesByLead_def using g dg kg each all keys by blast
qed

lemma messagesByLead_example:
  "messagesByLead [msg_a1, msg_b1, msg_a2]
     = Inr [(''lead-a'', [msg_a1, msg_a2]), (''lead-b'', [msg_b1])]"
  by (simp add: messagesByLead_def group_step_def get_property_def object_prototype_keys_def
      msg_a1_def msg_b1_def msg_a2_def Let_def)

text \<open>
  C10.  The claim is about every list of messages, and the reduction stands under the
  comment \<^verbatim>\<open>// Group messages by lead\<close>.  The accumulator is the plain object
  \<^verbatim>\<open>{}\<close>, which inherits a property named \<open>constructor\<close>.  For the list of two
  messages whose second has the lead id \<open>constructor\<close>, reading that key gives the
  inherited function, so no group is created, the call of \<^verbatim>\<open>push\<close> throws a TypeError
  and no message is placed in any group.
\<close>

theorem messagesByLead_throws_on_inherited_key:
  "messagesByLead [msg_a1, msg_inherited] = Inl TypeError"
  by (simp add: messagesByLead_def group_step_def get_property_def object_prototype_keys_def
      msg_a1_def msg_inherited_def Let_def)

section \<open>Facts about traces\<close>

lemmas handler_defs =
  AuthHandler_handleAuth_def ProtectedRoute_checkAuth_def DashboardLayout_handleLogout_def
  Dashboard_fetchOverview_def CampaignsPage_fetchCampaigns_def CampaignsPage_handleCreate_def
  CampaignsPage_handleCreate_earlier_def LeadsPage_fetchLeads_def LeadsPage_handleCreate_def
  LeadsPage_handleUpdate_def LeadsPage_handleDelete_def LeadsPage_handleImport_def
  AnalyticsPage_fetchInsights_def AnalyticsPage_generateInsights_def ResearchPage_fetchLeads_def
  ResearchPage_handleResearch_def ResearchPage_handleResearch_earlier_def
  SettingsPage_fetchIntegrations_def SettingsPage_fetchApiKeys_def SettingsPage_saveApiKeys_def
  SettingsPage_handleConnectSheets_def SettingsPage_handleSyncSheets_def
  MessagesPage_fetchMessages_def MessagesPage_handleSendReply_def
  fetchCampaign_def fetchCampaign_later_def initializeDefaultSteps_def
  initializeDefaultSteps_later_def CampaignBuilder_fetchLeads_def addStep_def saveStep_def
  setSchedule_def validateCampaign_def activateCampaign_def assignLeads_def pauseCampaign_def
  saveCampaignEdits_def generateAIMessage_def generateAllMessages_def onSelectProfile_def
  AgentProfileTab_fetchProfile_def ProductInfoEditor_handleFileUpload_def upload_def
  handleAIGenerate_def updateStepTiming_def CampaignAnalytics_fetchAnalytics_def
  AIAgentProfileManager_fetchProfiles_def AIAgentProfileManager_handleCreate_def
  CampaignsV2Page_fetchCampaigns_def CampaignsV2Page_createCampaign_def
  CampaignsV2Page_deleteCampaign_def PhantombusterImport_fetchAgents_def
  PhantombusterImport_handleImport_def handleEnrich_def AIAgentStudio_fetchConfig_def
  AIAgentStudio_fetchUsage_def AIAgentStudio_saveConfig_def CampaignBuilderV2_fetchCampaign_def
  CampaignBuilderV2_fetchLeads_def CampaignBuilderV2_fetchMessages_def OverviewTab_handleSave_def
  ProductInfoTab_handleFileUpload_def handleRegeneratePersona_def handleSavePersona_def
  handleGeneratePersona_def handleStepUpdate_def handleBestPracticesUpload_def
  generateTestMessages_def generateBulkMessages_def approveTestPhase_def regenerateMessage_def
  updateMessage_def ScheduleTab_handleSave_def handleActivate_def
  PerContactMessagePreview_fetchMessages_def regenerateStep_def


lemma requests_try_await:
  "requests (try_await m p b r on_ok on_catch) =
     (m, p, b) # (case r of Returns d \<Rightarrow> requests (on_ok d) | Fails \<Rightarrow> requests on_catch)"
  by (cases r) (simp_all add: try_await_def)

lemma after_rejection_append:
  "after_rejection (xs @ ys) =
     (case after_rejection xs of Some es \<Rightarrow> Some (es @ ys) | None \<Rightarrow> after_rejection ys)"
  by (induction xs) simp_all

lemma after_rejection_try_await:
  "after_rejection (try_await m p b r on_ok on_catch) =
     (case r of Fails \<Rightarrow> Some on_catch | Returns d \<Rightarrow> after_rejection (on_ok d))"
  by (cases r) (simp_all add: try_await_def)

lemma after_rejection_None: "Rejected \<notin> set xs \<Longrightarrow> after_rejection xs = None"
  by (induction xs) auto

lemma after_rejection_try_await_each:
  "after_rejection (try_await_each m reqs rs i on_done on_catch) = Some es \<Longrightarrow>
   Rejected \<notin> set on_done \<Longrightarrow> es = on_catch"
  by (induction m reqs rs i on_done on_catch rule: try_await_each.induct)
     (auto simp: after_rejection_None split: outcome.splits)

lemma initializeDefaultSteps_failure:
  "after_rejection (initializeDefaultSteps campaignId initializing rs) = Some es \<Longrightarrow>
   es = [ConsoleError, SetState ''initializingSteps'']"
  by (auto simp: initializeDefaultSteps_def after_rejection_append
      dest: after_rejection_try_await_each split: if_splits option.splits)

lemma initializeDefaultSteps_later_failure:
  "after_rejection (initializeDefaultSteps_later campaignId initializing rs) = Some es \<Longrightarrow>
   es = [ConsoleError, ToastError, SetState ''initializingSteps'']"
  by (auto simp: initializeDefaultSteps_later_def after_rejection_append
      dest: after_rejection_try_await_each split: if_splits option.splits)

lemma fetchCampaign_failure:
  "after_rejection (fetchCampaign campaignId initializing r rs) = Some es \<Longrightarrow>
   (r = Fails \<and> es = [ToastError, SetState ''loading'']) \<or>
   ((\<exists>d. r = Returns d) \<and> es = [ConsoleError, SetState ''initializingSteps'', SetState ''loading''])"
  by (auto simp: fetchCampaign_def after_rejection_append after_rejection_try_await
      dest: initializeDefaultSteps_failure split: if_splits option.splits outcome.splits)

lemma fetchCampaign_later_failure:
  "after_rejection (fetchCampaign_later campaignId initializing r rs) = Some es \<Longrightarrow>
   es = [ToastError, SetState ''loading''] \<or>
   es = [ConsoleError, ToastError, SetState ''initializingSteps'', SetState ''loading'']"
  by (auto simp: fetchCampaign_later_def after_rejection_append after_rejection_try_await
      dest: initializeDefaultSteps_later_failure split: if_splits option.splits outcome.splits)

lemma handleEnrich_failure:
  "after_rejection (handleEnrich updates onComplete onClose rs) = Some es \<Longrightarrow>
   es = [ToastError, SetState ''processing'']"
  by (auto simp: handleEnrich_def after_rejection_append
      dest: after_rejection_try_await_each split: if_splits option.splits)

lemma handleAuth_exchange_failure:
  "after_rejection (AuthHandler_handleAuth (Some sid) sessionToken Fails)
     = Some [ConsoleError, ToastError, Navigate [], SetState ''loading'']"
  by (simp add: AuthHandler_handleAuth_def after_rejection_append after_rejection_try_await)

lemma handleAuth_check_failure:
  "present sessionToken \<Longrightarrow>
   after_rejection (AuthHandler_handleAuth None sessionToken Fails)
     = Some [StorageRemove ''session_token'', StorageRemove ''user'', Navigate [],
             SetState ''loading'']"
  by (simp add: AuthHandler_handleAuth_def after_rejection_append after_rejection_try_await)

lemma checkAuth_failure:
  "present sessionToken \<Longrightarrow>
   after_rejection (ProtectedRoute_checkAuth sessionToken Fails)
     = Some [StorageRemove ''session_token'', StorageRemove ''user'',
             SetState ''isAuthenticated'']"
  by (simp add: ProtectedRoute_checkAuth_def after_rejection_try_await)

lemma handleLogout_failure:
  "after_rejection (DashboardLayout_handleLogout Fails)
     = Some [ConsoleError, StorageRemove ''session_token'', StorageRemove ''user'', Navigate []]"
  by (simp add: DashboardLayout_handleLogout_def after_rejection_append
      after_rejection_try_await)

section \<open>After a failed request: state\<close>

lemma failure_keeps_state:
  assumes "runs h t" and "h \<notin> set session_handlers" and "after_rejection t = Some es"
  shows "list_all (\<lambda>e. \<not> modifies_state e) es"
  using assms
proof (induction rule: runs.induct)
  case (builderFetch campaignId initializing rd rs)
  then show ?case by (auto dest!: fetchCampaign_failure simp: in_flight_flags_def)
next
  case (builderFetchLater campaignId initializing rd rs)
  then show ?case by (auto dest!: fetchCampaign_later_failure simp: in_flight_flags_def)
next
  case (initialize campaignId initializing rs)
  then show ?case by (auto dest!: initializeDefaultSteps_failure simp: in_flight_flags_def)
next
  case (initializeLater campaignId initializing rs)
  then show ?case by (auto dest!: initializeDefaultSteps_later_failure simp: in_flight_flags_def)
next
  case (enrich updates onComplete onClose rs)
  then show ?case by (auto dest!: handleEnrich_failure simp: in_flight_flags_def)
qed (auto simp: handler_defs after_rejection_append after_rejection_try_await
      session_handlers_def in_flight_flags_def
      split: outcome.splits option.splits if_splits)

lemma quiet_try_await_each:
  assumes "list_all (\<lambda>e. \<not> modifies_state e) on_done"
    and "list_all (\<lambda>e. \<not> modifies_state e) on_catch"
  shows "list_all (\<lambda>e. \<not> modifies_state e) (try_await_each m reqs rs i on_done on_catch)"
  using assms
  by (induction m reqs rs i on_done on_catch rule: try_await_each.induct)
     (auto split: outcome.splits)

lemma failed_run_keeps_state:
  assumes "runs h t" and "h \<notin> set session_handlers" and "Rejected \<in> set t"
    and "Resolved \<notin> set t"
  shows "list_all (\<lambda>e. \<not> modifies_state e) t"
  using assms
proof (induction rule: runs.induct)
  case (enrich updates onComplete onClose rs)
  show ?case
    unfolding handleEnrich_def
    by (auto simp: in_flight_flags_def intro!: quiet_try_await_each)
next
  case (initialize campaignId initializing rs)
  show ?case
    unfolding initializeDefaultSteps_def
    by (auto simp: in_flight_flags_def intro!: quiet_try_await_each)
next
  case (initializeLater campaignId initializing rs)
  show ?case
    unfolding initializeDefaultSteps_later_def
    by (auto simp: in_flight_flags_def intro!: quiet_try_await_each)
qed (auto simp: handler_defs try_await_def session_handlers_def in_flight_flags_def
      split: outcome.splits option.splits if_splits)

text \<open>
  C1, as the code has it.  For every handler run other than those of the three session
  handlers, and every input on which an awaited request fails, nothing that runs after the
  failure writes to localStorage or sets a state variable other than an in-flight flag;
  and a run in which a request failed and none succeeded does neither from its start.
  The session handlers end the session instead: after a failed session check
  \<open>AuthHandler.handleAuth\<close> and \<open>ProtectedRoute.checkAuth\<close> remove \<open>session_token\<close> and
  \<open>user\<close> from localStorage (\<open>checkAuth\<close> also sets \<open>isAuthenticated\<close>), and
  \<open>DashboardLayout.handleLogout\<close> removes both after the logout request, failed or not.
  A failed session exchange in \<open>handleAuth\<close> changes nothing.
\<close>

theorem failed_request_state:
  "(\<forall>h t es. runs h t \<longrightarrow> h \<notin> set session_handlers \<longrightarrow> after_rejection t = Some es \<longrightarrow>
      list_all (\<lambda>e. \<not> modifies_state e) es)
   \<and> (\<forall>h t. runs h t \<longrightarrow> h \<notin> set session_handlers \<longrightarrow> Rejected \<in> set t \<longrightarrow>
        Resolved \<notin> set t \<longrightarrow> list_all (\<lambda>e. \<not> modifies_state e) t)
   \<and> after_rejection (AuthHandler_handleAuth (Some sid) sessionToken Fails)
       = Some [ConsoleError, ToastError, Navigate [], SetState ''loading'']
   \<and> (present sessionToken \<longrightarrow>
        after_rejection (AuthHandler_handleAuth None sessionToken Fails)
          = Some [StorageRemove ''session_token'', StorageRemove ''user'', Navigate [],
                  SetState ''loading''])
   \<and> (present sessionToken \<longrightarrow>
        after_rejection (ProtectedRoute_checkAuth sessionToken Fails)
          = Some [StorageRemove ''session_token'', StorageRemove ''user'',
                  SetState ''isAuthenticated''])
   \<and> after_rejection (DashboardLayout_handleLogout Fails)
       = Some [ConsoleError, StorageRemove ''session_token'', StorageRemove ''user'',
               Navigate []]
   \<and> DashboardLayout_handleLogout (Returns ())
       = [Request POST [''api'', ''auth'', ''logout''] NoBody, Resolved,
          StorageRemove ''session_token'', StorageRemove ''user'', Navigate []]"
proof (intro conjI allI impI)
  fix h t es
  assume "runs h t" "h \<notin> set session_handlers" "after_rejection t = Some es"
  then show "list_all (\<lambda>e. \<not> modifies_state e) es" by (rule failure_keeps_state)
next
  fix h t
  assume "runs h t" "h \<notin> set session_handlers" "Rejected \<in> set t" "Resolved \<notin> set t"
  then show "list_all (\<lambda>e. \<not> modifies_state e) t" by (rule failed_run_keeps_state)
next
  show "after_rejection (AuthHandler_handleAuth (Some sid) sessionToken Fails)
       = Some [ConsoleError, ToastError, Navigate [], SetState ''loading'']"
    by (rule handleAuth_exchange_failure)
next
  assume "present sessionToken"
  then show "after_rejection (AuthHandler_handleAuth None sessionToken Fails)
          = Some [StorageRemove ''session_token'', StorageRemove ''user'', Navigate [],
                  SetState ''loading'']"
    by (rule handleAuth_check_failure)
next
  assume "present sessionToken"
  then show "after_rejection (ProtectedRoute_checkAuth sessionToken Fails)
          = Some [StorageRemove ''session_token'', StorageRemove ''user'',
                  SetState ''isAuthenticated'']"
    by (rule checkAuth_failure)
next
  show "after_rejection (DashboardLayout_handleLogout Fails)
       = Some [ConsoleError, StorageRemove ''session_token'', StorageRemove ''user'',
               Navigate []]"
    by (rule handleLogout_failure)
next
  show "DashboardLayout_handleLogout (Returns ())
       = [Request POST [''api'', ''auth'', ''logout''] NoBody, Resolved,
          StorageRemove ''session_token'', StorageRemove ''user'', Navigate []]"
    by (simp add: DashboardLayout_handleLogout_def try_await_def)
qed

theorem failed_request_state_witness:
  "runs ''MessagesPage.handleSendReply'' (MessagesPage_handleSendReply (ascii ''Thanks!'') Fails)
   \<and> ''MessagesPage.handleSendReply'' \<notin> set session_handlers
   \<and> after_rejection (MessagesPage_handleSendReply (ascii ''Thanks!'') Fails)
       = Some [ToastError, SetState ''sending'']
   \<and> list_all (\<lambda>e. \<not> modifies_state e) [ToastError, SetState ''sending'']
   \<and> present (Some ''token'')
   \<and> after_rejection (ProtectedRoute_checkAuth (Some ''token'') Fails)
       = Some [StorageRemove ''session_token'', StorageRemove ''user'',
               SetState ''isAuthenticated'']"
proof -
  have r: "runs ''MessagesPage.handleSendReply''
      (MessagesPage_handleSendReply (ascii ''Thanks!'') Fails)"
    by (rule runs.sendReply)
  have n: "''MessagesPage.handleSendReply'' \<notin> set session_handlers"
    by (simp add: session_handlers_def)
  have a: "after_rejection (MessagesPage_handleSendReply (ascii ''Thanks!'') Fails)
      = Some [ToastError, SetState ''sending'']"
    by (simp add: MessagesPage_handleSendReply_def try_await_def ascii_def trim_def
        is_white_space_def)
  have p: "present (Some ''token'')" by simp
  note inst = failed_request_state [of "''sid''" "Some ''token''"]
  from inst r n a have q: "list_all (\<lambda>e. \<not> modifies_state e) [ToastError, SetState ''sending'']"
    by (elim conjE) (drule spec [of _ "''MessagesPage.handleSendReply''"],
        drule spec [of _ "MessagesPage_handleSendReply (ascii ''Thanks!'') Fails"],
        drule spec [of _ "[ToastError, SetState ''sending'']"], simp)
  from inst p have c: "after_rejection (ProtectedRoute_checkAuth (Some ''token'') Fails)
       = Some [StorageRemove ''session_token'', StorageRemove ''user'',
               SetState ''isAuthenticated'']"
    by (elim conjE) simp
  from r n a q p c show ?thesis by simp
qed

text \<open>
  C1 as stated covers every handler.  \<open>ProtectedRoute.checkAuth\<close> with a stored token and a
  failing /auth/me request removes the stored session and sets \<open>isAuthenticated\<close>.
\<close>

theorem checkAuth_clears_session_counterexample:
  "runs ''ProtectedRoute.checkAuth'' (ProtectedRoute_checkAuth (Some ''token'') Fails)
   \<and> after_rejection (ProtectedRoute_checkAuth (Some ''token'') Fails)
       = Some [StorageRemove ''session_token'', StorageRemove ''user'',
               SetState ''isAuthenticated'']
   \<and> modifies_state (StorageRemove ''session_token'')
   \<and> modifies_state (StorageRemove ''user'')
   \<and> modifies_state (SetState ''isAuthenticated'')"
  using runs.checkAuth [of "Some ''token''" Fails]
  by (simp add: ProtectedRoute_checkAuth_def try_await_def in_flight_flags_def)

section \<open>After a failed request: toasts\<close>

lemma failure_toast:
  assumes "runs h t" and "h \<notin> set silent_handlers" and "h \<notin> set partly_silent_handlers"
    and "h \<notin> set unguarded_handlers" and "after_rejection t = Some es"
  shows "ToastError \<in> set es"
  using assms
proof (induction rule: runs.induct)
  case (builderFetchLater campaignId initializing rd rs)
  then show ?case by (auto dest!: fetchCampaign_later_failure)
next
  case (initializeLater campaignId initializing rs)
  then show ?case by (auto dest!: initializeDefaultSteps_later_failure)
next
  case (enrich updates onComplete onClose rs)
  then show ?case by (auto dest!: handleEnrich_failure)
next
  case (builderFetch campaignId initializing rd rs)
  then show ?case by (simp add: partly_silent_handlers_def)
next
  case (initialize campaignId initializing rs)
  then show ?case by (simp add: silent_handlers_def)
qed (auto simp: handler_defs after_rejection_append after_rejection_try_await
      silent_handlers_def partly_silent_handlers_def unguarded_handlers_def
      split: outcome.splits option.splits if_splits)

lemma failure_silent:
  assumes "runs h t" and "h \<in> set silent_handlers" and "after_rejection t = Some es"
  shows "ToastError \<notin> set es"
  using assms
proof (induction rule: runs.induct)
  case (builderFetch campaignId initializing rd rs)
  then show ?case by (simp add: silent_handlers_def)
next
  case (builderFetchLater campaignId initializing rd rs)
  then show ?case by (simp add: silent_handlers_def)
next
  case (initializeLater campaignId initializing rs)
  then show ?case by (simp add: silent_handlers_def)
next
  case (enrich updates onComplete onClose rs)
  then show ?case by (simp add: silent_handlers_def)
next
  case (initialize campaignId initializing rs)
  then show ?case by (auto dest!: initializeDefaultSteps_failure)
qed (auto simp: handler_defs after_rejection_append after_rejection_try_await
      silent_handlers_def
      split: outcome.splits option.splits if_splits)

lemma fetchCampaign_get_failure:
  "after_rejection (fetchCampaign campaignId initializing Fails rs)
     = Some [ToastError, SetState ''loading'']"
  by (simp add: fetchCampaign_def after_rejection_append after_rejection_try_await)

lemma fetchCampaign_post_failure:
  "after_rejection (fetchCampaign campaignId initializing (Returns d) rs) = Some es \<Longrightarrow>
   es = [ConsoleError, SetState ''initializingSteps'', SetState ''loading'']"
  by (auto dest: fetchCampaign_failure)

text \<open>
  C2, as the code has it.  After a failed request every handler whose request is awaited
  inside try/catch shows an error toast, except the handlers in \<open>silent_handlers\<close>, whose
  catch branch shows none: it logs to the console or clears the session.  Two handlers
  are silent for one of their requests only: \<open>AuthHandler.handleAuth\<close> shows a toast for
  a failed session exchange and none for a failed session check; the first
  \<open>CampaignBuilder.fetchCampaign\<close> shows a toast for a failed GET and none for a failed
  step POST.  The two inline handlers of \<open>unguarded_handlers\<close> are left aside.
\<close>

theorem failed_request_toast:
  "(\<forall>h t es. runs h t \<longrightarrow> h \<notin> set silent_handlers \<longrightarrow> h \<notin> set partly_silent_handlers \<longrightarrow>
      h \<notin> set unguarded_handlers \<longrightarrow> after_rejection t = Some es \<longrightarrow> ToastError \<in> set es)
   \<and> (\<forall>h t es. runs h t \<longrightarrow> h \<in> set silent_handlers \<longrightarrow> after_rejection t = Some es \<longrightarrow>
        ToastError \<notin> set es)
   \<and> after_rejection (AuthHandler_handleAuth (Some sid) sessionToken Fails)
       = Some [ConsoleError, ToastError, Navigate [], SetState ''loading'']
   \<and> (present sessionToken \<longrightarrow>
        after_rejection (AuthHandler_handleAuth None sessionToken Fails)
          = Some [StorageRemove ''session_token'', StorageRemove ''user'', Navigate [],
                  SetState ''loading''])
   \<and> after_rejection (fetchCampaign campaignId initializing Fails rs)
       = Some [ToastError, SetState ''loading'']
   \<and> (\<forall>d es. after_rejection (fetchCampaign campaignId initializing (Returns d) rs) = Some es \<longrightarrow>
        es = [ConsoleError, SetState ''initializingSteps'', SetState ''loading''])"
proof (intro conjI allI impI)
  fix h t es
  assume "runs h t" "h \<notin> set silent_handlers" "h \<notin> set partly_silent_handlers"
    "h \<notin> set unguarded_handlers" "after_rejection t = Some es"
  then show "ToastError \<in> set es" by (rule failure_toast)
next
  fix h t es
  assume "runs h t" "h \<in> set silent_handlers" "after_rejection t = Some es"
  then show "ToastError \<notin> set es" by (rule failure_silent)
next
  show "after_rejection (AuthHandler_handleAuth (Some sid) sessionToken Fails)
       = Some [ConsoleError, ToastError, Navigate [], SetState ''loading'']"
    by (rule handleAuth_exchange_failure)
next
  assume "present sessionToken"
  then show "after_rejection (AuthHandler_handleAuth None sessionToken Fails)
          = Some [StorageRemove ''session_token'', StorageRemove ''user'', Navigate [],
                  SetState ''loading'']"
    by (rule handleAuth_check_failure)
next
  show "after_rejection (fetchCampaign campaignId initializing Fails rs)
       = Some [ToastError, SetState ''loading'']"
    by (rule fetchCampaign_get_failure)
next
  fix d es
  assume "after_rejection (fetchCampaign campaignId initializing (Returns d) rs) = Some es"
  then show "es = [ConsoleError, SetState ''initializingSteps'', SetState ''loading'']"
    by (rule fetchCampaign_post_failure)
qed

theorem failed_request_toast_witness:
  "runs ''LeadsPage.fetchLeads'' (LeadsPage_fetchLeads Fails)
   \<and> ''LeadsPage.fetchLeads'' \<notin> set silent_handlers
   \<and> ''LeadsPage.fetchLeads'' \<notin> set partly_silent_handlers
   \<and> ''LeadsPage.fetchLeads'' \<notin> set unguarded_handlers
   \<and> after_rejection (LeadsPage_fetchLeads Fails) = Some [ToastError]
   \<and> ToastError \<in> set [ToastError]
   \<and> runs ''AIAgentStudio.fetchUsage'' (AIAgentStudio_fetchUsage Fails)
   \<and> ''AIAgentStudio.fetchUsage'' \<in> set silent_handlers
   \<and> after_rejection (AIAgentStudio_fetchUsage Fails) = Some [ConsoleError]
   \<and> ToastError \<notin> set [ConsoleError]"
proof -
  have r: "runs ''LeadsPage.fetchLeads'' (LeadsPage_fetchLeads Fails)"
    by (rule runs.leadsFetch)
  have n: "''LeadsPage.fetchLeads'' \<notin> set silent_handlers"
    "''LeadsPage.fetchLeads'' \<notin> set partly_silent_handlers"
    "''LeadsPage.fetchLeads'' \<notin> set unguarded_handlers"
    by (simp_all add: silent_handlers_def partly_silent_handlers_def unguarded_handlers_def)
  have a: "after_rejection (LeadsPage_fetchLeads Fails) = Some [ToastError]"
    by (simp add: LeadsPage_fetchLeads_def try_await_def)
  have r': "runs ''AIAgentStudio.fetchUsage'' (AIAgentStudio_fetchUsage Fails)"
    by (rule runs.fetchUsage)
  have s: "''AIAgentStudio.fetchUsage'' \<in> set silent_handlers"
    by (simp add: silent_handlers_def)
  have a': "after_rejection (AIAgentStudio_fetchUsage Fails) = Some [ConsoleError]"
    by (simp add: AIAgentStudio_fetchUsage_def try_await_def)
  note inst = failed_request_toast [of "''sid''" None "''c1''" False "always ()"]
  from inst r n a have q: "ToastError \<in> set [ToastError]"
    by (elim conjE) simp
  from inst r' s a' have q': "ToastError \<notin> set [ConsoleError]"
    by (elim conjE) (drule spec [of _ "''AIAgentStudio.fetchUsage''"],
        drule spec [of _ "AIAgentStudio_fetchUsage Fails"],
        drule spec [of _ "[ConsoleError]"], simp)
  from r n a q r' s a' q' show ?thesis by simp
qed

text \<open>
  C2 as stated covers every handler.  \<open>CampaignBuilder.fetchLeads\<close> with a failing request
  logs to the console and shows no toast.
\<close>

theorem fetchLeads_silent_counterexample:
  "runs ''CampaignBuilder.fetchLeads'' (CampaignBuilder_fetchLeads Fails)
   \<and> CampaignBuilder_fetchLeads Fails
       = [Request GET [''api'', ''leads''] NoBody, Rejected, ConsoleError]
   \<and> after_rejection (CampaignBuilder_fetchLeads Fails) = Some [ConsoleError]
   \<and> ToastError \<notin> set [ConsoleError]"
  using runs.builderLeads [of Fails]
  by (simp add: CampaignBuilder_fetchLeads_def try_await_def)

section \<open>Endpoints\<close>

lemma endpoints_try_await_each:
  assumes "\<And>p b. (p, b) \<in> set reqs \<Longrightarrow> listed_endpoint p \<or> unlisted_endpoint p"
    and "requests on_done = []" and "requests on_catch = []"
    and "(m', p', b') \<in> set (requests (try_await_each m reqs rs i on_done on_catch))"
  shows "listed_endpoint p' \<or> unlisted_endpoint p'"
  using assms
  by (induction m reqs rs i on_done on_catch rule: try_await_each.induct)
     (auto split: outcome.splits)

lemma handleEnrich_endpoints:
  "(m, p, b) \<in> set (requests (handleEnrich updates onComplete onClose rs)) \<Longrightarrow>
   listed_endpoint p \<or> unlisted_endpoint p"
  unfolding handleEnrich_def
  by (auto simp: requests_append dest!: endpoints_try_await_each [rotated 3])

text \<open>
  C4, as the code has it.  Every request that a handler sends through the HTTP client
  targets one of the endpoint families the specification lists, or one of the families
  /api/auth/*, /api/ai-agent/*, /api/v2/campaigns and /api/integrations/google-sheets/*.
\<close>

theorem requests_target_known_endpoints:
  assumes "runs h t" and "(m, p, b) \<in> set (requests t)"
  shows "listed_endpoint p \<or> unlisted_endpoint p"
  using assms
proof (induction rule: runs.induct)
  case (enrich updates onComplete onClose rs)
  then show ?case by (rule handleEnrich_endpoints)
qed (auto simp: handler_defs requests_append requests_try_await defaultSteps_def
        steps_path_def split: outcome.splits option.splits if_splits)

theorem requests_target_known_endpoints_witness:
  "runs ''CampaignBuilderV2.fetchMessages'' (CampaignBuilderV2_fetchMessages ''c1'' (Returns ()))
   \<and> (GET, [''api'', ''v2'', ''campaigns'', ''c1'', ''messages''], NoBody)
       \<in> set (requests (CampaignBuilderV2_fetchMessages ''c1'' (Returns ())))
   \<and> unlisted_endpoint [''api'', ''v2'', ''campaigns'', ''c1'', ''messages'']
   \<and> \<not> listed_endpoint [''api'', ''v2'', ''campaigns'', ''c1'', ''messages'']"
proof -
  have r: "runs ''CampaignBuilderV2.fetchMessages''
      (CampaignBuilderV2_fetchMessages ''c1'' (Returns ()))"
    by (rule runs.builderV2Messages)
  have q: "(GET, [''api'', ''v2'', ''campaigns'', ''c1'', ''messages''], NoBody)
       \<in> set (requests (CampaignBuilderV2_fetchMessages ''c1'' (Returns ())))"
    by (simp add: CampaignBuilderV2_fetchMessages_def try_await_def)
  have n: "\<not> listed_endpoint [''api'', ''v2'', ''campaigns'', ''c1'', ''messages'']"
    by simp
  from requests_target_known_endpoints [OF r q] r q n show ?thesis by blast
qed

lemma unlisted_families_are_used:
  "(POST, [''api'', ''auth'', ''logout''], NoBody)
     \<in> set (requests (DashboardLayout_handleLogout (Returns ())))"
  "(GET, [''api'', ''ai-agent'', ''config''], NoBody)
     \<in> set (requests (AIAgentStudio_fetchConfig (Returns ())))"
  "(GET, [''api'', ''v2'', ''campaigns''], NoBody)
     \<in> set (requests (CampaignsV2Page_fetchCampaigns (Returns ())))"
  "(POST, [''api'', ''integrations'', ''google-sheets'', ''sync''], NoBody)
     \<in> set (requests (SettingsPage_handleSyncSheets (Returns ())))"
  by (simp_all add: DashboardLayout_handleLogout_def AIAgentStudio_fetchConfig_def
      CampaignsV2Page_fetchCampaigns_def SettingsPage_handleSyncSheets_def try_await_def)

text \<open>
  C4 as stated allows the listed families only.  \<open>AuthHandler.handleAuth\<close> posts to
  /api/auth/session-data, which is in none of them.
\<close>

theorem handleAuth_endpoint_counterexample:
  "runs ''AuthHandler.handleAuth'' (AuthHandler_handleAuth (Some ''abc'') None (Returns ()))
   \<and> (POST, [''api'', ''auth'', ''session-data''], Body)
       \<in> set (requests (AuthHandler_handleAuth (Some ''abc'') None (Returns ())))
   \<and> \<not> listed_endpoint [''api'', ''auth'', ''session-data'']"
  using runs.handleAuth [of "Some ''abc''" None "Returns ()"]
  by (simp add: AuthHandler_handleAuth_def try_await_def)

section \<open>Creating a campaign\<close>

text \<open>
  C3, as the code has it.  Each of the three create-campaign handlers, submitted with a
  non-empty name, sends exactly one request, a POST to its campaigns endpoint whose body
  holds the entered name.  On a successful response \<open>CampaignsPage.handleCreate\<close> of the
  current App navigates to /campaigns/{id}/edit and \<open>CampaignsV2Page.createCampaign\<close> to
  /campaigns-v2/{id}; the earlier \<open>CampaignsPage.handleCreate\<close> never navigates and
  re-fetches the campaign list instead.
\<close>

theorem create_campaign_posts_and_navigates:
  assumes "newName \<noteq> []"
  shows "requests (CampaignsPage_handleCreate newName r)
           = [(POST, [''api'', ''campaigns''], Named newName)]
       \<and> (\<forall>cid. r = Returns cid \<longrightarrow>
             navigations (CampaignsPage_handleCreate newName r) = [[''campaigns'', cid, ''edit'']])
       \<and> requests (CampaignsV2Page_createCampaign newName r)
           = [(POST, [''api'', ''v2'', ''campaigns''], Named newName)]
       \<and> (\<forall>cid. r = Returns cid \<longrightarrow>
             navigations (CampaignsV2Page_createCampaign newName r) = [[''campaigns-v2'', cid]])
       \<and> requests (CampaignsPage_handleCreate_earlier newName r)
           = [(POST, [''api'', ''campaigns''], Named newName)]
       \<and> navigations (CampaignsPage_handleCreate_earlier newName r) = []
       \<and> (\<forall>cid. r = Returns cid \<longrightarrow> refreshes (CampaignsPage_handleCreate_earlier newName r))"
  using assms
  by (cases r)
     (simp_all add: CampaignsPage_handleCreate_def CampaignsV2Page_createCampaign_def
       CampaignsPage_handleCreate_earlier_def try_await_def navigations_def refreshes_def
       refresh_calls_def)

theorem create_campaign_posts_and_navigates_witness:
  "ascii ''Spring launch'' \<noteq> []
   \<and> requests (CampaignsPage_handleCreate (ascii ''Spring launch'') (Returns ''c42''))
       = [(POST, [''api'', ''campaigns''], Named (ascii ''Spring launch''))]
   \<and> navigations (CampaignsPage_handleCreate (ascii ''Spring launch'') (Returns ''c42''))
       = [[''campaigns'', ''c42'', ''edit'']]"
  using create_campaign_posts_and_navigates [of "ascii ''Spring launch''" "Returns ''c42''"]
  by (simp add: ascii_def)

text \<open>
  C3 as stated has the handler navigate to the edit route.  The earlier
  \<open>CampaignsPage.handleCreate\<close>, which the claim also names, posts the form and then
  re-fetches the list; it does not navigate.
\<close>

theorem earlier_handleCreate_counterexample:
  "CampaignsPage_handleCreate_earlier (ascii ''Spring launch'') (Returns ''c42'')
     = [Request POST [''api'', ''campaigns''] (Named (ascii ''Spring launch'')), Resolved,
        ToastSuccess, SetState ''showCreate'', SetState ''newCampaign'',
        Call ''fetchCampaigns'']
   \<and> navigations (CampaignsPage_handleCreate_earlier (ascii ''Spring launch'') (Returns ''c42''))
       = []"
  by (simp add: CampaignsPage_handleCreate_earlier_def try_await_def navigations_def)

section \<open>Default steps\<close>

lemma fetchCampaign_with_steps:
  "\<not> no_message_steps d \<Longrightarrow>
   requests (fetchCampaign campaignId initializing (Returns d) rs)
     = [(GET, [''api'', ''campaigns'', campaignId], NoBody)]"
  by (simp add: fetchCampaign_def requests_append requests_try_await)

lemma fetchCampaign_later_with_steps:
  "\<not> no_message_steps d \<Longrightarrow>
   requests (fetchCampaign_later campaignId initializing (Returns d) rs)
     = [(GET, [''api'', ''campaigns'', campaignId], NoBody)]"
  by (simp add: fetchCampaign_later_def requests_append requests_try_await)

lemma fetchCampaign_failed:
  "requests (fetchCampaign campaignId initializing Fails rs)
     = [(GET, [''api'', ''campaigns'', campaignId], NoBody)]"
  "requests (fetchCampaign_later campaignId initializing Fails rs)
     = [(GET, [''api'', ''campaigns'', campaignId], NoBody)]"
  by (simp_all add: fetchCampaign_def fetchCampaign_later_def requests_append
      requests_try_await)

lemma fetchCampaign_initializing:
  "requests (fetchCampaign campaignId True r rs)
     = [(GET, [''api'', ''campaigns'', campaignId], NoBody)]"
  "requests (fetchCampaign_later campaignId True r rs)
     = [(GET, [''api'', ''campaigns'', campaignId], NoBody)]"
  by (cases r; simp add: fetchCampaign_def fetchCampaign_later_def requests_append
      requests_try_await initializeDefaultSteps_def)+

text \<open>
  The guard, for one call.  Whenever \<open>initializeDefaultSteps\<close> runs in a closure that reads
  \<open>initializingSteps\<close> as true, it returns at once: no effect, so no POST to
  /campaigns/{id}/steps.  A run of \<open>fetchCampaign\<close> posts to /campaigns/{id}/steps only when
  the campaign was fetched and has no message steps (and the closure reads the flag as
  false); a fetched campaign that has steps gets the GET and nothing else.  This holds for
  both versions of CampaignBuilder.
\<close>

lemma default_steps_guarded:
  "initializeDefaultSteps campaignId True rs = []
   \<and> initializeDefaultSteps_later campaignId True rs = []
   \<and> (\<forall>b. (POST, steps_path campaignId, b)
            \<in> set (requests (fetchCampaign campaignId initializing r rs))
          \<longrightarrow> (\<exists>d. r = Returns d \<and> no_message_steps d) \<and> \<not> initializing)
   \<and> (\<forall>b. (POST, steps_path campaignId, b)
            \<in> set (requests (fetchCampaign_later campaignId initializing r rs))
          \<longrightarrow> (\<exists>d. r = Returns d \<and> no_message_steps d) \<and> \<not> initializing)
   \<and> (\<forall>d. \<not> no_message_steps d \<longrightarrow>
          requests (fetchCampaign campaignId initializing (Returns d) rs)
            = [(GET, [''api'', ''campaigns'', campaignId], NoBody)]
        \<and> requests (fetchCampaign_later campaignId initializing (Returns d) rs)
            = [(GET, [''api'', ''campaigns'', campaignId], NoBody)])"
proof -
  have a: "initializeDefaultSteps campaignId True rs = []"
    and b: "initializeDefaultSteps_later campaignId True rs = []"
    by (simp_all add: initializeDefaultSteps_def initializeDefaultSteps_later_def)
  have c: "(\<exists>d. r = Returns d \<and> no_message_steps d) \<and> \<not> initializing"
    if "(POST, steps_path campaignId, b) \<in> set (requests (fetchCampaign campaignId initializing r rs))"
    for b
  proof (cases r)
    case Fails
    with that show ?thesis by (simp add: fetchCampaign_failed)
  next
    case (Returns d)
    show ?thesis
    proof (cases "no_message_steps d")
      case True
      with that Returns show ?thesis
        by (cases initializing) (simp_all add: fetchCampaign_initializing)
    next
      case False
      with that Returns show ?thesis by (simp add: fetchCampaign_with_steps)
    qed
  qed
  have d: "(\<exists>d. r = Returns d \<and> no_message_steps d) \<and> \<not> initializing"
    if "(POST, steps_path campaignId, b)
          \<in> set (requests (fetchCampaign_later campaignId initializing r rs))"
    for b
  proof (cases r)
    case Fails
    with that show ?thesis by (simp add: fetchCampaign_failed)
  next
    case (Returns d)
    show ?thesis
    proof (cases "no_message_steps d")
      case True
      with that Returns show ?thesis
        by (cases initializing) (simp_all add: fetchCampaign_initializing)
    next
      case False
      with that Returns show ?thesis by (simp add: fetchCampaign_later_with_steps)
    qed
  qed
  have c': "\<forall>b. (POST, steps_path campaignId, b)
            \<in> set (requests (fetchCampaign campaignId initializing r rs))
          \<longrightarrow> (\<exists>d. r = Returns d \<and> no_message_steps d) \<and> \<not> initializing"
    by (intro allI impI) (rule c)
  have d': "\<forall>b. (POST, steps_path campaignId, b)
            \<in> set (requests (fetchCampaign_later campaignId initializing r rs))
          \<longrightarrow> (\<exists>d. r = Returns d \<and> no_message_steps d) \<and> \<not> initializing"
    by (intro allI impI) (rule d)
  have e: "\<forall>d. \<not> no_message_steps d \<longrightarrow>
          requests (fetchCampaign campaignId initializing (Returns d) rs)
            = [(GET, [''api'', ''campaigns'', campaignId], NoBody)]
        \<and> requests (fetchCampaign_later campaignId initializing (Returns d) rs)
            = [(GET, [''api'', ''campaigns'', campaignId], NoBody)]"
    by (simp add: fetchCampaign_with_steps fetchCampaign_later_with_steps)
  show ?thesis
    by (intro conjI a b c' d' e)
qed

lemma default_steps_guarded_example:
  "initializeDefaultSteps ''c1'' True (always ()) = []
   \<and> requests (initializeDefaultSteps ''c1'' False (always ()))
       = [(POST, [''api'', ''campaigns'', ''c1'', ''steps''], Step 1 0),
          (POST, [''api'', ''campaigns'', ''c1'', ''steps''], Step 2 3),
          (POST, [''api'', ''campaigns'', ''c1'', ''steps''], Step 3 5)]
   \<and> (POST, steps_path ''c1'', Step 1 0)
       \<in> set (requests (fetchCampaign ''c1'' False
                 (Returns \<lparr>message_steps = Some 0, email_channel = True\<rparr>) (always ())))
   \<and> no_message_steps \<lparr>message_steps = Some 0, email_channel = True\<rparr>
   \<and> \<not> no_message_steps \<lparr>message_steps = Some 3, email_channel = True\<rparr>
   \<and> requests (fetchCampaign ''c1'' False
         (Returns \<lparr>message_steps = Some 3, email_channel = True\<rparr>) (always ()))
       = [(GET, [''api'', ''campaigns'', ''c1''], NoBody)]"
  using default_steps_guarded [of "''c1''" "always ()" False
      "Returns \<lparr>message_steps = Some 0, email_channel = True\<rparr>"]
  by (simp add: initializeDefaultSteps_def fetchCampaign_def try_await_def defaultSteps_def
      steps_path_def always_def no_message_steps_def requests_append)

text \<open>
  One call in the model of overlapping calls sends the step POSTs of its trace, in both
  versions of CampaignBuilder.
\<close>

lemma one_call_posts:
  "map (\<lambda>(p, b). (POST, p, b))
     (posted (fst (execute [0, 0, 0, 0]
        (\<lparr>flag_now = f, posted = []\<rparr>, [call_from_render s campaignId r rs]))))
   = filter (\<lambda>(m, p, b). m = POST) (requests (fetchCampaign campaignId (flag_now s) r rs))"
  "map (\<lambda>(p, b). (POST, p, b))
     (posted (fst (execute [0, 0, 0, 0]
        (\<lparr>flag_now = f, posted = []\<rparr>, [call_from_render s campaignId r rs]))))
   = filter (\<lambda>(m, p, b). m = POST)
       (requests (fetchCampaign_later campaignId (flag_now s) r rs))"
  by (cases r; cases "rs 0"; cases "rs 1"; cases "rs 2";
      auto simp: call_from_render_def advance_def fetchCampaign_def fetchCampaign_later_def
        initializeDefaultSteps_def initializeDefaultSteps_later_def
        try_await_def defaultSteps_def numeral_2_eq_2 numeral_3_eq_3)+

text \<open>
  A call made from a render after the flag was set is stopped: the first call has passed
  the guard, the second is made from the render that follows, and only the first posts.
\<close>

lemma late_call_is_stopped:
  "closure_flag (call_from_render (fst (execute [0] (idle_builder, [early_call]))) ''c1''
     (Returns campaign_without_steps) (always ()))
   \<and> posted (fst (execute [1, 0, 1, 0, 0]
       (fst (execute [0] (idle_builder, [early_call])),
        snd (execute [0] (idle_builder, [early_call])) @
        [call_from_render (fst (execute [0] (idle_builder, [early_call]))) ''c1''
           (Returns campaign_without_steps) (always ())])))
     = [(steps_path ''c1'', Step 1 0), (steps_path ''c1'', Step 2 3),
        (steps_path ''c1'', Step 3 5)]"
  by (simp add: idle_builder_def early_call_def call_from_render_def advance_def
      campaign_without_steps_def no_message_steps_def defaultSteps_def always_def)

text \<open>
  C5.  The flag does not keep two initializations apart.  Two calls of \<open>fetchCampaign\<close>
  are made from one render in which \<open>initializingSteps\<close> is false, and the backend answers
  both GETs with a campaign without steps.  The first call sets the flag and sends its
  first POST; the second call still reads the constant of its render, passes the guard
  and sends the same POST: both are in the loop of \<open>initializeDefaultSteps\<close> at the same
  time, with the flag set.  When both have returned, each of the three default steps has
  been posted twice.
\<close>

theorem stale_flag_initializations_overlap:
  "\<not> closure_flag early_call
   \<and> execute [0, 1] (idle_builder, [early_call, early_call])
       = (\<lparr>flag_now = True,
            posted = [(steps_path ''c1'', Step 1 0), (steps_path ''c1'', Step 1 0)]\<rparr>,
          [early_call\<lparr>waits_at := AwaitsStep 0\<rparr>, early_call\<lparr>waits_at := AwaitsStep 0\<rparr>])
   \<and> list_all posting_steps (snd (execute [0, 1] (idle_builder, [early_call, early_call])))
   \<and> execute [0, 1, 0, 1, 0, 1, 0, 1] (idle_builder, [early_call, early_call])
       = (\<lparr>flag_now = False,
            posted = [(steps_path ''c1'', Step 1 0), (steps_path ''c1'', Step 1 0),
                      (steps_path ''c1'', Step 2 3), (steps_path ''c1'', Step 2 3),
                      (steps_path ''c1'', Step 3 5), (steps_path ''c1'', Step 3 5)]\<rparr>,
          [early_call\<lparr>waits_at := Returned\<rparr>, early_call\<lparr>waits_at := Returned\<rparr>])"
  by (simp add: idle_builder_def early_call_def call_from_render_def advance_def
      campaign_without_steps_def no_message_steps_def defaultSteps_def always_def
      posting_steps_def)

section \<open>Presence checks\<close>

text \<open>
  C6, as the code has it.  The create-campaign handlers of the current App and of
  CampaignsV2Page, the send-reply, connect-sheets, research and persona-regeneration
  handlers check their required field: when it is empty they show an error toast and
  send no request.  The add-lead, update-lead, import, create-profile and save-API-keys
  handlers and the earlier create-campaign handler have no such check and send their
  request even when every field is empty.
\<close>

theorem presence_checks:
  "CampaignsPage_handleCreate [] rc = [ToastError]
   \<and> CampaignsV2Page_createCampaign [] rc = [ToastError]
   \<and> (trim replyText = [] \<longrightarrow> MessagesPage_handleSendReply replyText r = [ToastError])
   \<and> SettingsPage_handleConnectSheets [] r = [ToastError]
   \<and> (\<not> truthy leadUrl \<and> \<not> truthy leadName \<longrightarrow>
        ResearchPage_handleResearch leadUrl leadName leadCompany rb = [ToastError])
   \<and> (\<not> truthy leadUrl \<longrightarrow> ResearchPage_handleResearch_earlier leadUrl r = [ToastError])
   \<and> (\<not> truthy leadName \<or> \<not> truthy leadUrl \<longrightarrow>
        handleRegeneratePersona leadName leadUrl leadId onUpdate r = [ToastError])
   \<and> requests (LeadsPage_handleCreate [] r) = [(POST, [''api'', ''leads''], Named [])]
   \<and> requests (LeadsPage_handleUpdate leadId [] r)
       = [(PATCH, [''api'', ''leads'', leadId], Named [])]
   \<and> requests (LeadsPage_handleImport [] r)
       = [(POST, [''api'', ''leads'', ''import''], Leads [])]
   \<and> requests (CampaignsPage_handleCreate_earlier [] rc)
       = [(POST, [''api'', ''campaigns''], Named [])]
   \<and> requests (AIAgentProfileManager_handleCreate [] onSelect r)
       = [(POST, [''api'', ''ai-agent-profiles''], Named [])]
   \<and> requests (SettingsPage_saveApiKeys r) = [(POST, [''api'', ''settings'', ''api-keys''], Body)]"
  by (cases r; cases rc)
     (simp_all add: CampaignsPage_handleCreate_def CampaignsV2Page_createCampaign_def
       MessagesPage_handleSendReply_def SettingsPage_handleConnectSheets_def
       ResearchPage_handleResearch_def ResearchPage_handleResearch_earlier_def
       handleRegeneratePersona_def LeadsPage_handleCreate_def LeadsPage_handleUpdate_def
       LeadsPage_handleImport_def CampaignsPage_handleCreate_earlier_def
       AIAgentProfileManager_handleCreate_def SettingsPage_saveApiKeys_def
       requests_append requests_try_await import_leads_def trim_def
       slice1_def newline_def comma_def)

theorem presence_checks_witness:
  "trim (ascii ''   '') = []
   \<and> MessagesPage_handleSendReply (ascii ''   '') (Returns ()) = [ToastError]
   \<and> \<not> truthy (Some []) \<and> \<not> truthy None
   \<and> ResearchPage_handleResearch None (Some []) None (Returns True) = [ToastError]
   \<and> handleRegeneratePersona (Some (ascii ''Ada'')) None ''lead-1'' True (Returns ()) = [ToastError]"
  using presence_checks [where replyText = "ascii ''   ''" and r = "Returns ()"
      and leadUrl = None and leadName = "Some []" and leadCompany = None
      and rb = "Returns True"]
    presence_checks [where leadName = "Some (ascii ''Ada'')" and leadUrl = None
      and leadId = "''lead-1''" and onUpdate = True and r = "Returns ()"]
  by (simp add: ascii_def trim_def is_white_space_def)

text \<open>
  C6 as stated has every form check its required field.  \<open>LeadsPage.handleCreate\<close>
  submitted with an empty name posts the lead and reports success.
\<close>

theorem add_lead_unchecked_counterexample:
  "LeadsPage_handleCreate [] (Returns ())
     = [Request POST [''api'', ''leads''] (Named []), Resolved, ToastSuccess,
        SetState ''showCreate'', SetState ''newLead'', Call ''fetchLeads'']"
  by (simp add: LeadsPage_handleCreate_def try_await_def)

section \<open>Mutations and refresh\<close>



text \<open>
  For a lead without a LinkedIn URL whose name and company are not well formed together,
  the encoding throws inside the \<^verbatim>\<open>try\<close> block: the run shows the toast of the
  \<^verbatim>\<open>catch\<close> block and sends nothing.
\<close>

lemma research_encoding_throws:
  assumes "\<not> truthy leadUrl" and "truthy leadName"
    and "\<not> well_formed (search_terms leadName leadCompany)"
  shows "ResearchPage_handleResearch leadUrl leadName leadCompany rb
           = [SetState ''researching'', ToastError, SetState ''researching'']"
  using assms by (simp add: ResearchPage_handleResearch_def)

lemma research_encoding_throws_example:
  "ResearchPage_handleResearch None (Some [0xD83D]) (Some (ascii ''Acme'')) (Returns True)
     = [SetState ''researching'', ToastError, SetState ''researching'']"
  by (simp add: ResearchPage_handleResearch_def search_terms_def ascii_def
      high_surrogate_def low_surrogate_def)















end
